theory Spec2Isabelle
  imports Complex_Main "HOL-Library.Log_Nat"
begin


section \<open>Common data\<close>

text \<open>
  JavaScript strings are modelled as \<^typ>\<open>string\<close>, one \<^typ>\<open>char\<close> per code unit
  (the strings of interest here are ASCII). A thrown exception or a rejected promise is
  the \<open>Inl\<close> side of a sum; \<open>Error msg\<close> is \<^verbatim>\<open>new Error(msg)\<close>.
\<close>

datatype error = Error string

text \<open>\<^verbatim>\<open>!s\<close> on a value that is a string or undefined: true when unset or empty.\<close>

definition falsy :: "string option \<Rightarrow> bool" where
  "falsy v = (case v of None \<Rightarrow> True | Some s \<Rightarrow> s = [])"

text \<open>\<^verbatim>\<open>a || b\<close> on a number that may be undefined: 0 and undefined give the default.\<close>

definition or_default :: "int option \<Rightarrow> int \<Rightarrow> int" where
  "or_default v d = (case v of None \<Rightarrow> d | Some n \<Rightarrow> if n = 0 then d else n)"

text \<open>\<^verbatim>\<open>a || b\<close> on a string that may be undefined.\<close>

definition or_string :: "string option \<Rightarrow> string \<Rightarrow> string" where
  "or_string v d = (case v of None \<Rightarrow> d | Some s \<Rightarrow> if s = [] then d else s)"

text \<open>
  \<^verbatim>\<open>xs.slice(k)\<close> of arrays and strings: a negative \<open>k\<close> counts from the end, and both
  ends are clamped.
\<close>

definition slice_from :: "'a list \<Rightarrow> int \<Rightarrow> 'a list" where
  "slice_from xs k =
     (let n = int (length xs)
      in drop (nat (if k < 0 then max (n + k) 0 else min k n)) xs)"

text \<open>
  \<^verbatim>\<open>s.substring(a, b)\<close>: each argument is clamped to \<open>[0, length]\<close> and the two are
  swapped when \<open>a > b\<close>.
\<close>

definition substring :: "string \<Rightarrow> int \<Rightarrow> int \<Rightarrow> string" where
  "substring s a b =
     (let n = int (length s);
          a' = max 0 (min a n);
          b' = max 0 (min b n);
          lo = min a' b';
          hi = max a' b'
      in take (nat (hi - lo)) (drop (nat lo) s))"

text \<open>\<^verbatim>\<open>s.trim()\<close>, on the white space of the Latin-1 range.\<close>

definition is_space :: "char \<Rightarrow> bool" where
  "is_space c = (c \<in> set [CHR 0x09, CHR 0x0A, CHR 0x0B, CHR 0x0C, CHR 0x0D, CHR 0x20, CHR 0xA0])"

definition trim :: "string \<Rightarrow> string" where
  "trim s = rev (dropWhile is_space (rev (dropWhile is_space s)))"

definition startsWith :: "string \<Rightarrow> string \<Rightarrow> bool" where
  "startsWith s p = (take (length p) s = p)"


section \<open>Regular expressions\<close>

text \<open>\<^verbatim>\<open>s.toLowerCase()\<close>, on ASCII letters.\<close>

definition toLowerCase :: "string \<Rightarrow> string" where
  "toLowerCase s =
     map (\<lambda>c. let n = (of_char c :: nat) in if 65 \<le> n \<and> n \<le> 90 then char_of (n + 32) else c) s"

text \<open>
  The regular expressions of the repository are sequences of atoms: one character of a
  class, a greedy star of a class, a greedy plus of a class, an alternative of literal
  words, an optional character, the end of the input. \<open>rx_match\<close> matches a sequence at the start
  of a string with JavaScript's backtracking order (a star tries its longest run first,
  an alternative its words in order) and returns the text matched by each star and plus,
  in order, and the rest of the string. \<open>rx_search\<close> finds the leftmost match, as
  \<^verbatim>\<open>String.prototype.match\<close> and \<^verbatim>\<open>replace\<close> do for a regular expression without the
  \<^verbatim>\<open>g\<close> flag, and returns the text before the match as well.
\<close>

datatype atom =
    One "char \<Rightarrow> bool"
  | Star "char \<Rightarrow> bool"
  | Plus "char \<Rightarrow> bool"
  | Alt "(char \<Rightarrow> bool) list list"
  | Opt "char \<Rightarrow> bool"
  | End

fun first_some :: "'a option list \<Rightarrow> 'a option" where
  "first_some [] = None"
| "first_some (None # xs) = first_some xs"
| "first_some (Some x # xs) = Some x"

fun matches_prefix :: "(char \<Rightarrow> bool) list \<Rightarrow> string \<Rightarrow> bool" where
  "matches_prefix [] s = True"
| "matches_prefix (p # ps) [] = False"
| "matches_prefix (p # ps) (c # cs) = (p c \<and> matches_prefix ps cs)"

fun rx_match :: "atom list \<Rightarrow> string \<Rightarrow> (string list \<times> string) option" where
  "rx_match [] s = Some ([], s)"
| "rx_match (One p # atoms) s =
     (case s of [] \<Rightarrow> None | c # cs \<Rightarrow> if p c then rx_match atoms cs else None)"
| "rx_match (Star p # atoms) s =
     first_some
       (map (\<lambda>k. map_option (\<lambda>(segs, r). (take k s # segs, r)) (rx_match atoms (drop k s)))
            (rev [0..<Suc (length (takeWhile p s))]))"
| "rx_match (Plus p # atoms) s =
     first_some
       (map (\<lambda>k. map_option (\<lambda>(segs, r). (take k s # segs, r)) (rx_match atoms (drop k s)))
            (rev [1..<Suc (length (takeWhile p s))]))"
| "rx_match (Alt alts # atoms) s =
     first_some
       (map (\<lambda>alt. if matches_prefix alt s then rx_match atoms (drop (length alt) s) else None) alts)"
| "rx_match (Opt p # atoms) s =
     (case (case s of [] \<Rightarrow> None | c # cs \<Rightarrow> if p c then rx_match atoms cs else None) of
        Some m \<Rightarrow> Some m
      | None \<Rightarrow> rx_match atoms s)"
| "rx_match (End # atoms) s = (if s = [] then rx_match atoms s else None)"

fun rx_search :: "atom list \<Rightarrow> string \<Rightarrow> (string \<times> string list \<times> string) option" where
  "rx_search atoms [] = map_option (\<lambda>(segs, r). ([], segs, r)) (rx_match atoms [])"
| "rx_search atoms (c # cs) =
     (case rx_match atoms (c # cs) of
        Some (segs, r) \<Rightarrow> Some ([], segs, r)
      | None \<Rightarrow> map_option (\<lambda>(before, segs, r). (c # before, segs, r)) (rx_search atoms cs))"

text \<open>Character classes and literals; \<open>ci\<close> is a letter under the \<^verbatim>\<open>i\<close> flag.\<close>

definition chr_is :: "char \<Rightarrow> char \<Rightarrow> bool" where
  "chr_is c x = (x = c)"

definition chr_isnt :: "char \<Rightarrow> char \<Rightarrow> bool" where
  "chr_isnt c x = (x \<noteq> c)"

definition ci :: "char \<Rightarrow> char \<Rightarrow> bool" where
  "ci c x = (toLowerCase [x] = toLowerCase [c])"

definition word_char :: "char \<Rightarrow> bool" where
  "word_char x =
     (let n = (of_char x :: nat)
      in (97 \<le> n \<and> n \<le> 122) \<or> (65 \<le> n \<and> n \<le> 90) \<or> (48 \<le> n \<and> n \<le> 57) \<or> n = 95)"

definition lit :: "string \<Rightarrow> atom list" where
  "lit w = map (\<lambda>c. One (chr_is c)) w"

definition lit_ci :: "string \<Rightarrow> atom list" where
  "lit_ci w = map (\<lambda>c. One (ci c)) w"

definition dq :: char where
  "dq = CHR 0x22"

definition backslash :: char where
  "backslash = CHR 0x5C"

definition backtick :: char where
  "backtick = CHR 0x60"


text \<open>
  The two regular expressions of the fallback of \<^verbatim>\<open>generateMessageResponse\<close>,
  \<^verbatim>\<open>/["']action["']\s*:\s*["']([A-Z_]+)["']/i\<close> and
  \<^verbatim>\<open>/["']text["']\s*:\s*["']([^"']+)["']/i\<close>, and their first capture group.
\<close>

definition apostrophe :: char where
  "apostrophe = CHR 0x27"

definition quote_char :: "char \<Rightarrow> bool" where
  "quote_char x = (x = dq \<or> x = apostrophe)"

definition action_char :: "char \<Rightarrow> bool" where
  "action_char x =
     (let n = (of_char x :: nat) in (65 \<le> n \<and> n \<le> 90) \<or> (97 \<le> n \<and> n \<le> 122) \<or> n = 95)"

definition actionRegex :: "atom list" where
  "actionRegex =
     [One quote_char] @ lit_ci ''action'' @
     [One quote_char, Star is_space, One (chr_is CHR '':''), Star is_space, One quote_char,
      Plus action_char, One quote_char]"

definition textRegex :: "atom list" where
  "textRegex =
     [One quote_char] @ lit_ci ''text'' @
     [One quote_char, Star is_space, One (chr_is CHR '':''), Star is_space, One quote_char,
      Plus (\<lambda>x. \<not> quote_char x), One quote_char]"

definition first_group :: "atom list \<Rightarrow> string \<Rightarrow> string option" where
  "first_group atoms s =
     (case rx_search atoms s of
        Some (before, [w1, w2, captured], r) \<Rightarrow> Some captured
      | _ \<Rightarrow> None)"

definition actionMatch :: "string \<Rightarrow> string option" where
  "actionMatch response = first_group actionRegex response"

definition textMatch :: "string \<Rightarrow> string option" where
  "textMatch response = first_group textRegex response"


section \<open>Context budgeter: trimTokens and truncateTiktoken\<close>

text \<open>
  The tokenizer is the js-tiktoken library, which is not part of the repository: an
  encoding is a pair of functions that may throw, and \<open>encodingForModel\<close> (which throws
  on an unknown model name) is a field of the environment, as is the value of the
  enumeration constant \<^verbatim>\<open>TokenizerType.TikToken\<close>, declared in types.ts.
\<close>

type_synonym token = nat

record encoding =
  encode :: "string \<Rightarrow> error + token list"
  decode :: "token list \<Rightarrow> error + string"

record tok_env =
  encodingForModel :: "string \<Rightarrow> error + encoding"
  TokenizerType_TikToken :: string

text \<open>The part of the agent runtime that the functions below read.\<close>

record runtime =
  getSetting :: "string \<Rightarrow> string option"
  imageModelProvider :: string

text \<open>
  \<^verbatim>\<open>truncateTiktoken\<close>: every exception of the try block (building the encoding,
  encoding, decoding) ends in the catch, which returns the last \<open>maxTokens * 4\<close>
  characters.
\<close>

definition truncateTiktoken :: "tok_env \<Rightarrow> string \<Rightarrow> string \<Rightarrow> int \<Rightarrow> string" where
  "truncateTiktoken env model context maxTokens =
     (let fallback = slice_from context (- maxTokens * 4)
      in case encodingForModel env model of
           Inl e \<Rightarrow> fallback
         | Inr enc \<Rightarrow>
             (case encode enc context of
                Inl e \<Rightarrow> fallback
              | Inr tokens \<Rightarrow>
                  if int (length tokens) \<le> maxTokens then context
                  else (case decode enc (slice_from tokens (- maxTokens)) of
                          Inl e \<Rightarrow> fallback
                        | Inr s \<Rightarrow> s)))"

definition trimTokens :: "tok_env \<Rightarrow> runtime \<Rightarrow> string \<Rightarrow> int \<Rightarrow> error + string" where
  "trimTokens env rt context maxTokens =
     (if context = [] then Inr []
      else if maxTokens \<le> 0 then Inl (Error ''maxTokens must be positive'')
      else
        (case (getSetting rt ''TOKENIZER_MODEL'', getSetting rt ''TOKENIZER_TYPE'') of
           (Some tokenizerModel, Some tokenizerType) \<Rightarrow>
             if tokenizerModel = [] \<or> tokenizerType = []
             then Inr (truncateTiktoken env ''gpt-4o'' context maxTokens)
             else if tokenizerType = TokenizerType_TikToken env
             then Inr (truncateTiktoken env tokenizerModel context maxTokens)
             else Inr (truncateTiktoken env ''gpt-4o'' context maxTokens)
         | _ \<Rightarrow> Inr (truncateTiktoken env ''gpt-4o'' context maxTokens)))"



text \<open>A one-character-per-token tokenizer, and a runtime without tokenizer settings.\<close>

definition char_encoding :: encoding where
  "char_encoding = \<lparr> encode = (\<lambda>s. Inr (map of_char s)), decode = (\<lambda>ts. Inr (map char_of ts)) \<rparr>"

definition char_env :: tok_env where
  "char_env = \<lparr> encodingForModel = (\<lambda>m. Inr char_encoding), TokenizerType_TikToken = ''tiktoken'' \<rparr>"

definition plain_runtime :: runtime where
  "plain_runtime = \<lparr> getSetting = (\<lambda>k. None), imageModelProvider = ''openai'' \<rparr>"

text \<open>
  A tokenizer that cuts the text into pieces before it looks for tokens, as byte-pair
  encoders with a pre-tokenizer do, so that the tokens of a text that begins at a token
  boundary of another text need not be the tokens of that other text. Of \<^verbatim>\<open>they'vesaid\<close>
  the pieces are \<^verbatim>\<open>they've\<close> and \<^verbatim>\<open>said\<close>, with the tokens \<^verbatim>\<open>they\<close>, \<^verbatim>\<open>'ve\<close> and
  \<^verbatim>\<open>said\<close>; \<^verbatim>\<open>'vesaid\<close> is one piece, with the tokens \<^verbatim>\<open>'\<close>, \<^verbatim>\<open>ves\<close> and
  \<^verbatim>\<open>aid\<close>. Every other text has one token for each character. Decoding concatenates
  the texts of the tokens.
\<close>

definition they_ve_said :: string where
  "they_ve_said = ''they'' @ apostrophe # ''vesaid''"

definition ve_said :: string where
  "ve_said = apostrophe # ''vesaid''"

definition piece_vocabulary :: "string list" where
  "piece_vocabulary = [''they'', apostrophe # ''ve'', ''said'', [apostrophe], ''ves'', ''aid'']"

definition piece_encoding :: encoding where
  "piece_encoding =
     \<lparr> encode = (\<lambda>s. Inr (if s = they_ve_said then [0, 1, 2]
                          else if s = ve_said then [3, 4, 5]
                          else map (\<lambda>c. 6 + of_char c) s)),
       decode = (\<lambda>ts. Inr (concat (map (\<lambda>t. if t < 6 then piece_vocabulary ! t
                                               else [char_of (t - 6)]) ts))) \<rparr>"



section \<open>Text generation and the retry wrappers\<close>

text \<open>
  What a run leaves behind: an \<^verbatim>\<open>elizaLogger.error(label, error)\<close> call, and a
  \<^verbatim>\<open>setTimeout\<close> wait of so many milliseconds.
\<close>

datatype event = Logged string error | Waited int

text \<open>
  The environment of \<open>generateText\<close>. The model settings come from
  \<^verbatim>\<open>getModelSettings\<close> (models.ts) and the character's \<^verbatim>\<open>modelConfig\<close>; \<open>dispatch i ctx\<close>
  is the outcome of the provider switch on the \<open>i\<close>-th call with the trimmed context: the
  text of the provider, or the exception of the transport (or of the default branch,
  "Unsupported provider").
\<close>

record gen_env =
  tok :: tok_env
  settingsMaxInputTokens :: int
  configMaxInputTokens :: "int option"
  dispatch :: "nat \<Rightarrow> string \<Rightarrow> error + string"

text \<open>
  \<^verbatim>\<open>generateText\<close>: an empty context returns the empty text at once; otherwise the try
  block trims the context and calls the provider, and the catch logs the exception and
  throws it again.
\<close>

definition generateText :: "gen_env \<Rightarrow> runtime \<Rightarrow> nat \<Rightarrow> string \<Rightarrow> (error + string) \<times> event list" where
  "generateText g rt i context =
     (if context = [] then (Inr [], [])
      else
        let max_context_length = or_default (configMaxInputTokens g) (settingsMaxInputTokens g)
        in case trimTokens (tok g) rt context max_context_length of
             Inl e \<Rightarrow> (Inl e, [Logged ''Error in generateText:'' e])
           | Inr ctx \<Rightarrow>
               (case dispatch g i ctx of
                  Inl e \<Rightarrow> (Inl e, [Logged ''Error in generateText:'' e])
                | Inr response \<Rightarrow> (Inr response, [])))"

text \<open>The \<open>i\<close>-th call of \<open>generateText\<close> that a wrapper makes with its context.\<close>

definition calls :: "gen_env \<Rightarrow> runtime \<Rightarrow> string \<Rightarrow> nat \<Rightarrow> (error + string) \<times> event list" where
  "calls g rt context i = generateText g rt i context"

text \<open>
  The loop shared, word for word, by \<^verbatim>\<open>generateShouldRespond\<close>,
  \<^verbatim>\<open>generateTrueOrFalse\<close>, \<^verbatim>\<open>generateTextArray\<close>, \<^verbatim>\<open>generateObjectDeprecated\<close>,
  \<^verbatim>\<open>generateObjectArray\<close> and \<^verbatim>\<open>generateTweetActions\<close>:
  \<^verbatim>\<open>while (true) { try { response = await generateText(..); parsed = parse(response);
  if (parsed) return parsed; } catch (error) { elizaLogger.error(label, error); }
  await wait(retryDelay); retryDelay *= 2; }\<close>.
  \<open>gen i\<close> is the \<open>i\<close>-th call of \<open>generateText\<close>, \<open>parse\<close> the parser of parsing.ts
  (with \<open>None\<close> for null); the loop has no exit but the return, so a run that never
  parses has the value \<open>None\<close>.
\<close>

partial_function (option) retryLoop ::
  "string \<Rightarrow> (nat \<Rightarrow> (error + string) \<times> event list) \<Rightarrow> (string \<Rightarrow> error + 'a option) \<Rightarrow>
   nat \<Rightarrow> int \<Rightarrow> event list \<Rightarrow> ('a \<times> event list) option"
where
  "retryLoop label gen parse i retryDelay tr =
     (case gen i of
        (Inl e, ev) \<Rightarrow>
          retryLoop label gen parse (Suc i) (retryDelay * 2)
            (tr @ ev @ [Logged label e, Waited retryDelay])
      | (Inr response, ev) \<Rightarrow>
          (case parse response of
             Inl e \<Rightarrow>
               retryLoop label gen parse (Suc i) (retryDelay * 2)
                 (tr @ ev @ [Logged label e, Waited retryDelay])
           | Inr None \<Rightarrow>
               retryLoop label gen parse (Suc i) (retryDelay * 2)
                 (tr @ ev @ [Waited retryDelay])
           | Inr (Some v) \<Rightarrow> Some (v, tr @ ev)))"

text \<open>
  The six entry points. The result is the returned value and the events of the run.
  Three of them trim the response before parsing; three return at once on an empty
  context (the empty array, or null). \<^verbatim>\<open>generateTrueOrFalse\<close> computes its stop
  sequences before the loop and hands them to \<open>generateText\<close>, where only the provider
  reads them.
\<close>

definition generateShouldRespond ::
  "gen_env \<Rightarrow> runtime \<Rightarrow> (string \<Rightarrow> error + 'a option) \<Rightarrow> string \<Rightarrow> ('a \<times> event list) option" where
  "generateShouldRespond g rt parseShouldRespondFromText context =
     retryLoop ''Error in generateShouldRespond:'' (calls g rt context)
       (\<lambda>response. parseShouldRespondFromText (trim response)) 0 1000 []"

definition generateTrueOrFalse ::
  "gen_env \<Rightarrow> runtime \<Rightarrow> (string \<Rightarrow> error + bool option) \<Rightarrow> string \<Rightarrow> (bool \<times> event list) option" where
  "generateTrueOrFalse g rt parseBooleanFromText context =
     retryLoop ''Error in generateTrueOrFalse:'' (calls g rt context)
       (\<lambda>response. parseBooleanFromText (trim response)) 0 1000 []"

definition generateTweetActions ::
  "gen_env \<Rightarrow> runtime \<Rightarrow> (string \<Rightarrow> error + 'a option) \<Rightarrow> string \<Rightarrow> ('a \<times> event list) option" where
  "generateTweetActions g rt parseActionResponseFromText context =
     retryLoop ''Error in generateTweetActions:'' (calls g rt context)
       (\<lambda>response. parseActionResponseFromText (trim response)) 0 1000 []"

definition generateTextArray ::
  "gen_env \<Rightarrow> runtime \<Rightarrow> (string \<Rightarrow> error + 'a list option) \<Rightarrow> string \<Rightarrow> ('a list \<times> event list) option" where
  "generateTextArray g rt parseJsonArrayFromText context =
     (if context = [] then Some ([], [])
      else retryLoop ''Error in generateTextArray:'' (calls g rt context)
             parseJsonArrayFromText 0 1000 [])"

definition generateObjectDeprecated ::
  "gen_env \<Rightarrow> runtime \<Rightarrow> (string \<Rightarrow> error + 'a option) \<Rightarrow> string \<Rightarrow> ('a option \<times> event list) option" where
  "generateObjectDeprecated g rt parseJSONObjectFromText context =
     (if context = [] then Some (None, [])
      else map_option (\<lambda>(v, tr). (Some v, tr))
             (retryLoop ''Error in generateObject:'' (calls g rt context)
                parseJSONObjectFromText 0 1000 []))"

definition generateObjectArray ::
  "gen_env \<Rightarrow> runtime \<Rightarrow> (string \<Rightarrow> error + 'a list option) \<Rightarrow> string \<Rightarrow> ('a list \<times> event list) option" where
  "generateObjectArray g rt parseJsonArrayFromText context =
     (if context = [] then Some ([], [])
      else retryLoop ''Error in generateTextArray:'' (calls g rt context)
             parseJsonArrayFromText 0 1000 [])"

text \<open>
  JSON values, for the parsed content. \<^verbatim>\<open>generateMessageResponse\<close> trims the context
  (an exception of \<open>trimTokens\<close> leaves the function before the loop starts), then
  loops: a response that \<^verbatim>\<open>parseJSONObjectFromText\<close> parses is returned; on null the
  two regular expressions of the fallback are tried (\<open>matchAction\<close> and \<open>matchText\<close>, which
  are \<open>actionMatch\<close> and \<open>textMatch\<close> above) and, when one of them fails, the loop continues
  at once; an exception of the parser continues at once too; an exception of
  \<open>generateText\<close> doubles \<open>retryLength\<close> and then waits that long.
\<close>

datatype json = JNull | JBool bool | JNum int | JStr string | JArr "json list" | JObj "(string \<times> json) list"

partial_function (option) messageLoop ::
  "(nat \<Rightarrow> (error + string) \<times> event list) \<Rightarrow> (string \<Rightarrow> error + json option) \<Rightarrow>
   (string \<Rightarrow> string option) \<Rightarrow> (string \<Rightarrow> string option) \<Rightarrow>
   nat \<Rightarrow> int \<Rightarrow> event list \<Rightarrow> (json \<times> event list) option"
where
  "messageLoop gen parseJSONObjectFromText matchAction matchText i retryLength tr =
     (case gen i of
        (Inl e, ev) \<Rightarrow>
          messageLoop gen parseJSONObjectFromText matchAction matchText (Suc i) (retryLength * 2)
            (tr @ ev @ [Logged ''ERROR:'' e, Waited (retryLength * 2)])
      | (Inr response, ev) \<Rightarrow>
          (case parseJSONObjectFromText response of
             Inl e \<Rightarrow>
               messageLoop gen parseJSONObjectFromText matchAction matchText (Suc i) retryLength
                 (tr @ ev @ [Logged ''Error during JSON parsing:'' e])
           | Inr (Some parsedContent) \<Rightarrow> Some (parsedContent, tr @ ev)
           | Inr None \<Rightarrow>
               (case (matchAction response, matchText response) of
                  (Some a, Some t) \<Rightarrow>
                    Some (JObj [(''user'', JStr ''Eliza''), (''text'', JStr t), (''action'', JStr a)],
                          tr @ ev)
                | _ \<Rightarrow>
                    messageLoop gen parseJSONObjectFromText matchAction matchText (Suc i) retryLength
                      (tr @ ev))))"

definition generateMessageResponse ::
  "gen_env \<Rightarrow> runtime \<Rightarrow> (string \<Rightarrow> error + json option) \<Rightarrow> string \<Rightarrow>
   ((error + json) \<times> event list) option" where
  "generateMessageResponse g rt parseJSONObjectFromText context =
     (case trimTokens (tok g) rt context (settingsMaxInputTokens g) of
        Inl e \<Rightarrow> Some (Inl e, [])
      | Inr ctx \<Rightarrow>
          map_option (\<lambda>(v, tr). (Inr v, tr))
            (messageLoop (calls g rt ctx) parseJSONObjectFromText actionMatch textMatch 0 1000 []))"

text \<open>The delays of the waits of a run, in order.\<close>

fun waits :: "event list \<Rightarrow> int list" where
  "waits [] = []"
| "waits (Waited d # tr) = d # waits tr"
| "waits (Logged l e # tr) = waits tr"

text \<open>
  What one attempt of a retry loop comes to: \<open>generateText\<close> threw, the parser threw, the
  parser gave null, or it gave a value.
\<close>

datatype 'a attempt = Threw error | ParseThrew error | Null | Parsed 'a

definition attempt ::
  "(nat \<Rightarrow> (error + string) \<times> event list) \<Rightarrow> (string \<Rightarrow> error + 'a option) \<Rightarrow> nat \<Rightarrow> 'a attempt" where
  "attempt gen parse i =
     (case fst (gen i) of
        Inl e \<Rightarrow> Threw e
      | Inr response \<Rightarrow>
          (case parse response of
             Inl e \<Rightarrow> ParseThrew e
           | Inr None \<Rightarrow> Null
           | Inr (Some v) \<Rightarrow> Parsed v))"

text \<open>
  The attempt of \<^verbatim>\<open>generateMessageResponse\<close>, where a null parse may still be rescued
  by the two regular expressions.
\<close>

definition messageAttempt ::
  "(nat \<Rightarrow> (error + string) \<times> event list) \<Rightarrow> (string \<Rightarrow> error + json option) \<Rightarrow>
   (string \<Rightarrow> string option) \<Rightarrow> (string \<Rightarrow> string option) \<Rightarrow> nat \<Rightarrow> json attempt" where
  "messageAttempt gen parse matchAction matchText i =
     (case fst (gen i) of
        Inl e \<Rightarrow> Threw e
      | Inr response \<Rightarrow>
          (case parse response of
             Inl e \<Rightarrow> ParseThrew e
           | Inr (Some v) \<Rightarrow> Parsed v
           | Inr None \<Rightarrow>
               (case (matchAction response, matchText response) of
                  (Some a, Some t) \<Rightarrow>
                    Parsed (JObj [(''user'', JStr ''Eliza''), (''text'', JStr t), (''action'', JStr a)])
                | _ \<Rightarrow> Null)))"

text \<open>The delays \<open>d * 2 ^ 0, ..., d * 2 ^ (N - 1)\<close>.\<close>

definition backoff :: "int \<Rightarrow> nat \<Rightarrow> int list" where
  "backoff d N = map (\<lambda>j. d * 2 ^ j) [0..<N]"

text \<open>What an attempt that does not return adds to the run, at the current delay.\<close>

fun failed_events :: "string \<Rightarrow> 'a attempt \<Rightarrow> int \<Rightarrow> event list" where
  "failed_events label (Threw e) d = [Logged label e, Waited d]"
| "failed_events label (ParseThrew e) d = [Logged label e, Waited d]"
| "failed_events label Null d = [Waited d]"
| "failed_events label (Parsed v) d = []"

fun is_Parsed :: "'a attempt \<Rightarrow> bool" where
  "is_Parsed (Parsed v) = True"
| "is_Parsed _ = False"

text \<open>The events of the attempts \<open>i, ..., i + N - 1\<close> of the shared loop, none of which returns.\<close>

fun failed_run ::
  "string \<Rightarrow> (nat \<Rightarrow> (error + string) \<times> event list) \<Rightarrow> (string \<Rightarrow> error + 'a option) \<Rightarrow>
   nat \<Rightarrow> int \<Rightarrow> nat \<Rightarrow> event list" where
  "failed_run label gen parse i d 0 = []"
| "failed_run label gen parse i d (Suc N) =
     snd (gen i) @ failed_events label (attempt gen parse i) d
     @ failed_run label gen parse (Suc i) (d * 2) N"

text \<open>The events of the attempts \<open>i, ..., i + N - 1\<close> of \<^verbatim>\<open>generateMessageResponse\<close>.\<close>

fun message_run ::
  "(nat \<Rightarrow> (error + string) \<times> event list) \<Rightarrow> (nat \<Rightarrow> json attempt) \<Rightarrow> nat \<Rightarrow> int \<Rightarrow> nat \<Rightarrow> event list" where
  "message_run gen att i d 0 = []"
| "message_run gen att i d (Suc N) =
     snd (gen i) @
     (case att i of
        Threw e \<Rightarrow> [Logged ''ERROR:'' e, Waited (d * 2)] @ message_run gen att (Suc i) (d * 2) N
      | ParseThrew e \<Rightarrow> [Logged ''Error during JSON parsing:'' e] @ message_run gen att (Suc i) d N
      | _ \<Rightarrow> message_run gen att (Suc i) d N)"

text \<open>
  Attempt sequences: \<open>N\<close> null results and then the value \<open>v\<close>; \<open>N\<close> exceptions of
  \<open>generateText\<close> (the \<open>j\<close>-th being \<open>errs j\<close>) and then the value \<open>v\<close>; no value ever.
\<close>

definition nulls_then :: "(nat \<Rightarrow> 'a attempt) \<Rightarrow> nat \<Rightarrow> 'a \<Rightarrow> bool" where
  "nulls_then att N v = (list_all (\<lambda>j. att j = Null) [0..<N] \<and> att N = Parsed v)"

definition throws_then :: "(nat \<Rightarrow> 'a attempt) \<Rightarrow> (nat \<Rightarrow> error) \<Rightarrow> nat \<Rightarrow> 'a \<Rightarrow> bool" where
  "throws_then att errs N v = (list_all (\<lambda>j. att j = Threw (errs j)) [0..<N] \<and> att N = Parsed v)"

definition never_parses :: "(nat \<Rightarrow> 'a attempt) \<Rightarrow> bool" where
  "never_parses att = (\<forall>j. \<not> is_Parsed (att j))"

text \<open>
  The run of a wrapper whose first \<open>N\<close> calls of \<open>generateText\<close> throw: each exception is
  logged by \<open>generateText\<close>, logged again by the wrapper under its own label, and followed
  by a wait.
\<close>

definition thrown_trace :: "string \<Rightarrow> (nat \<Rightarrow> error) \<Rightarrow> int \<Rightarrow> nat \<Rightarrow> event list" where
  "thrown_trace label errs d N =
     concat (map (\<lambda>j. [Logged ''Error in generateText:'' (errs j), Logged label (errs j),
                        Waited (d * 2 ^ j)]) [0..<N])"

text \<open>Example environments: a provider that answers at the third call, after two
  useless answers or after two transport errors; parsers that accept the answer "yes".\<close>

definition slow_gen :: gen_env where
  "slow_gen = \<lparr> tok = char_env, settingsMaxInputTokens = 100, configMaxInputTokens = None,
                dispatch = (\<lambda>i ctx. if i < 2 then Inr ''hmm'' else Inr ''yes'') \<rparr>"

definition flaky_gen :: gen_env where
  "flaky_gen = \<lparr> tok = char_env, settingsMaxInputTokens = 100, configMaxInputTokens = None,
                 dispatch = (\<lambda>i ctx. if i < 2 then Inl (Error ''timeout'') else Inr ''yes'') \<rparr>"

definition dead_gen :: gen_env where
  "dead_gen = \<lparr> tok = char_env, settingsMaxInputTokens = 100, configMaxInputTokens = None,
                dispatch = (\<lambda>i ctx. Inl (Error ''timeout'')) \<rparr>"

definition parse_yes :: "string \<Rightarrow> error + bool option" where
  "parse_yes r = Inr (if r = ''yes'' then Some True else None)"

definition parse_yes_array :: "string \<Rightarrow> error + bool list option" where
  "parse_yes_array r = Inr (if r = ''yes'' then Some [True] else None)"

definition parse_yes_json :: "string \<Rightarrow> error + json option" where
  "parse_yes_json r = Inr (if r = ''yes'' then Some (JBool True) else None)"



section \<open>Chunking: splitText and splitChunks\<close>

text \<open>
  \<^verbatim>\<open>splitText\<close>: the loop \<^verbatim>\<open>while (start < content.length) { end = Math.min(start +
  chunkSize, content.length); chunks.push(content.substring(start, end)); start = end -
  bleed; }\<close>. A run that never leaves the loop has the value \<open>None\<close>.
\<close>

partial_function (option) splitText_loop ::
  "string \<Rightarrow> int \<Rightarrow> int \<Rightarrow> int \<Rightarrow> string list \<Rightarrow> string list option"
where
  "splitText_loop content chunkSize bleed start chunks =
     (if start < int (length content)
      then splitText_loop content chunkSize bleed
             (min (start + chunkSize) (int (length content)) - bleed)
             (chunks @ [substring content start (min (start + chunkSize) (int (length content)))])
      else Some chunks)"

definition splitText :: "string \<Rightarrow> int \<Rightarrow> int \<Rightarrow> string list option" where
  "splitText content chunkSize bleed = splitText_loop content chunkSize bleed 0 []"

text \<open>\<^verbatim>\<open>splitChunks(content, chunkSize = 1500, bleed = 100)\<close>: an argument left out takes its default.\<close>

definition splitChunks :: "string \<Rightarrow> int option \<Rightarrow> int option \<Rightarrow> string list option" where
  "splitChunks content chunkSize bleed =
     splitText content (case chunkSize of None \<Rightarrow> 1500 | Some n \<Rightarrow> n)
       (case bleed of None \<Rightarrow> 100 | Some b \<Rightarrow> b)"


section \<open>Image job poller: generateImage\<close>

text \<open>
  The request data, the body sent to RenderNet and the HTTP responses, with the fields
  the code reads. A response's \<open>json\<close> is \<open>Inl\<close> when \<^verbatim>\<open>response.json()\<close> throws or when
  the body is not an object whose fields can be read (a TypeError); \<open>generation_id\<close> is
  \<^verbatim>\<open>result.data.generation_id\<close> and is \<open>None\<close> when \<^verbatim>\<open>result.data\<close> is missing;
  \<open>status\<close> is \<^verbatim>\<open>generationResult.data?.result\<close>, \<open>media\<close> is
  \<^verbatim>\<open>generationResult.data?.media\<close> when that is an array, and \<open>err\<close> is
  \<^verbatim>\<open>JSON.stringify(generationResult.err)\<close>.
\<close>

record image_data =
  prompt :: string
  width :: int
  height :: int
  count :: "int option"
  negativePrompt :: "string option"
  numIterations :: "int option"
  guidanceScale :: "int option"

record rendernet_body =
  aspect_ratio :: string
  batch_size :: int
  cfg_scale :: int
  model :: string
  positive :: string
  negative :: string
  steps :: int
  quality :: string

record http_request =
  url :: string
  http_method :: string
  headers :: "(string \<times> string) list"
  body :: "rendernet_body list"

record submit_response =
  submit_ok :: bool
  submit_status :: string
  submit_text :: "error + string"
  submit_json :: "error + string option"

record media_item =
  item_type :: string
  item_url :: "string option"

record status_body =
  status :: "string option"
  media :: "media_item list option"
  err :: string

record poll_response =
  poll_ok :: bool
  poll_json :: "error + status_body"

record image_response =
  image_ok :: bool
  statusText :: string
  blob :: "error + nat list"

text \<open>
  The world outside: the name in \<^verbatim>\<open>getImageModelSettings(ModelProviderName.RENDERNET)\<close>
  (models.ts), the outcome of the POST, of the \<open>n\<close>-th status GET (with its URL and API
  key) and of the GET of an asset, and the base64 encoding of bytes. \<open>Inl\<close> is a
  \<^verbatim>\<open>fetch\<close> that throws.
\<close>

record image_env =
  renderNetSettingsName :: "string option"
  submit :: "http_request \<Rightarrow> error + submit_response"
  poll :: "nat \<Rightarrow> string \<Rightarrow> string \<Rightarrow> error + poll_response"
  fetchImage :: "string \<Rightarrow> error + image_response"
  base64 :: "nat list \<Rightarrow> string"

record image_result =
  success :: bool
  data :: "string list option"
  error :: "error option"

text \<open>
  A run of \<open>generateImage\<close>: the returned object, the POST that was sent (if any), the
  number of status polls made, and the provider that the log lines mention.
\<close>

record image_run =
  result :: image_result
  request :: "http_request option"
  polls_made :: nat
  logged_provider :: string

definition failure :: "string \<Rightarrow> image_result" where
  "failure msg = \<lparr> success = False, data = None, error = Some (Error msg) \<rparr>"

definition thrown :: "error \<Rightarrow> image_result" where
  "thrown e = \<lparr> success = False, data = None, error = Some e \<rparr>"

definition maxAttempts :: nat where
  "maxAttempts = 30"

text \<open>
  How the polling loop ends: \<^verbatim>\<open>break\<close> on "completed", \<^verbatim>\<open>return\<close> on "failed", the
  loop condition becoming false (with the last body read, if any), or an exception.
  Each carries the number of polls made.
\<close>

datatype poll_end =
    Completed status_body nat
  | Failed string nat
  | Exhausted "status_body option" nat
  | PollThrew error nat

function pollLoop :: "(nat \<Rightarrow> error + poll_response) \<Rightarrow> nat \<Rightarrow> status_body option \<Rightarrow> poll_end" where
  "pollLoop polls attempts generationResult =
     (if attempts < maxAttempts
      then (case polls (Suc attempts) of
              Inl e \<Rightarrow> PollThrew e (Suc attempts)
            | Inr statusResponse \<Rightarrow>
                if \<not> poll_ok statusResponse
                then pollLoop polls (Suc attempts) generationResult
                else (case poll_json statusResponse of
                        Inl e \<Rightarrow> PollThrew e (Suc attempts)
                      | Inr b \<Rightarrow>
                          if status b = Some ''completed'' then Completed b (Suc attempts)
                          else if status b = Some ''failed'' then Failed (err b) (Suc attempts)
                          else pollLoop polls (Suc attempts) (Some b)))
      else Exhausted generationResult attempts)"
  by pat_completeness auto
termination
  by (relation "measure (\<lambda>(polls, attempts, generationResult). maxAttempts - attempts)") auto

text \<open>
  The assets: the URLs of the media items of type "image" that have one, and their
  download. \<^verbatim>\<open>Promise.all\<close> starts every fetch; the first URL (in list order) whose
  fetch fails decides the exception.
\<close>

definition image_urls :: "media_item list \<Rightarrow> string list" where
  "image_urls items =
     List.map_filter
       (\<lambda>item. if item_type item = ''image'' \<and> \<not> falsy (item_url item) then item_url item else None)
       items"

fun fetchAll :: "image_env \<Rightarrow> string list \<Rightarrow> error + string list" where
  "fetchAll env [] = Inr []"
| "fetchAll env (u # rest) =
     (case fetchImage env u of
        Inl e \<Rightarrow> Inl e
      | Inr imageResponse \<Rightarrow>
          if \<not> image_ok imageResponse
          then Inl (Error (''Failed to fetch image: '' @ statusText imageResponse))
          else (case blob imageResponse of
                  Inl e \<Rightarrow> Inl e
                | Inr bytes \<Rightarrow>
                    (case fetchAll env rest of
                       Inl e \<Rightarrow> Inl e
                     | Inr others \<Rightarrow>
                         Inr ((''data:image/png;base64,'' @ base64 env bytes) # others))))"

text \<open>What follows the loop, on the last status body read.\<close>

definition collect :: "image_env \<Rightarrow> status_body option \<Rightarrow> image_result" where
  "collect env generationResult =
     (case generationResult of
        None \<Rightarrow> failure ''Failed to get valid generation result from RenderNet''
      | Some b \<Rightarrow>
          (case media b of
             None \<Rightarrow> failure ''Failed to get valid generation result from RenderNet''
           | Some items \<Rightarrow>
               (case fetchAll env (image_urls items) of
                  Inl e \<Rightarrow> thrown e
                | Inr base64s \<Rightarrow>
                    if base64s = [] then failure ''No images generated by RenderNet''
                    else \<lparr> success = True, data = Some base64s, error = None \<rparr>)))"

definition rendernetBody :: "image_env \<Rightarrow> image_data \<Rightarrow> rendernet_body list" where
  "rendernetBody env d =
     (let model0 = or_string (renderNetSettingsName env) ''JuggernautXL''
      in [\<lparr> aspect_ratio = (if width d = height d then ''1:1''
                            else if width d > height d then ''3:2'' else ''2:3''),
            batch_size = or_default (count d) 1,
            cfg_scale = or_default (guidanceScale d) 7,
            model = or_string (Some model0) ''JuggernautXL'',
            positive = prompt d,
            negative = or_string (negativePrompt d) ''nsfw, deformed, extra limbs, bad anatomy'',
            steps = or_default (numIterations d) 30,
            quality = ''Plus'' \<rparr>])"

definition missing_key :: image_result where
  "missing_key =
     failure ''RENDERNET_API_KEY is not set. Please configure RenderNet.ai API key in settings.''"

definition post_request :: "image_env \<Rightarrow> image_data \<Rightarrow> string \<Rightarrow> http_request" where
  "post_request env d key =
     \<lparr> url = ''https://api.rendernet.ai/pub/v1/generations'', http_method = ''POST'',
       headers = [(''Content-Type'', ''application/json''), (''X-API-KEY'', key)],
       body = rendernetBody env d \<rparr>"

definition status_polls :: "image_env \<Rightarrow> string \<Rightarrow> string \<Rightarrow> nat \<Rightarrow> error + poll_response" where
  "status_polls env key generationId n =
     poll env n (''https://api.rendernet.ai/pub/v1/generations/'' @ generationId) key"

definition generateImage :: "image_env \<Rightarrow> runtime \<Rightarrow> image_data \<Rightarrow> image_run" where
  "generateImage env rt d =
     (let originalProvider = imageModelProvider rt;
          apiKey = getSetting rt ''RENDERNET_API_KEY'';
          run = (\<lambda>r q n. \<lparr> result = r, request = q, polls_made = n,
                            logged_provider = originalProvider \<rparr>)
      in case apiKey of
           None \<Rightarrow> run missing_key None 0
         | Some key \<Rightarrow>
             if key = [] then run missing_key None 0
             else
               let req = post_request env d key
               in case submit env req of
                    Inl e \<Rightarrow> run (thrown e) (Some req) 0
                  | Inr response \<Rightarrow>
                      if \<not> submit_ok response
                      then (case submit_text response of
                              Inl e \<Rightarrow> run (thrown e) (Some req) 0
                            | Inr errorText \<Rightarrow>
                                run (failure (''RenderNet API error: '' @ submit_status response
                                              @ '' - '' @ errorText)) (Some req) 0)
                      else (case submit_json response of
                              Inl e \<Rightarrow> run (thrown e) (Some req) 0
                            | Inr None \<Rightarrow>
                                run (failure ''Invalid response format from RenderNet AI'') (Some req) 0
                            | Inr (Some generationId) \<Rightarrow>
                                if generationId = []
                                then run (failure ''Invalid response format from RenderNet AI'')
                                       (Some req) 0
                                else
                                  (case pollLoop (status_polls env key generationId) 0 None of
                                     PollThrew e n \<Rightarrow> run (thrown e) (Some req) n
                                   | Failed msg n \<Rightarrow>
                                       run (failure (''RenderNet generation failed: '' @ msg))
                                         (Some req) n
                                   | Completed b n \<Rightarrow> run (collect env (Some b)) (Some req) n
                                   | Exhausted g n \<Rightarrow> run (collect env g) (Some req) n)))"

text \<open>
  The classes of poll outcomes that the properties speak of: an outcome that keeps the
  loop going (a response that is not OK, or a status that is neither "completed" nor
  "failed"); one that keeps it going and carries no media array; a readable status
  body. And a submission that succeeded with an API key and a generation id.
\<close>

definition pending :: "error + poll_response \<Rightarrow> bool" where
  "pending p =
     (case p of
        Inl e \<Rightarrow> False
      | Inr r \<Rightarrow>
          \<not> poll_ok r \<or>
          (case poll_json r of
             Inl e \<Rightarrow> False
           | Inr b \<Rightarrow> status b \<noteq> Some ''completed'' \<and> status b \<noteq> Some ''failed''))"

definition bare :: "error + poll_response \<Rightarrow> bool" where
  "bare p =
     (case p of
        Inl e \<Rightarrow> False
      | Inr r \<Rightarrow>
          \<not> poll_ok r \<or>
          (case poll_json r of
             Inl e \<Rightarrow> False
           | Inr b \<Rightarrow> status b \<noteq> Some ''completed'' \<and> status b \<noteq> Some ''failed'' \<and> media b = None))"

definition reports :: "error + poll_response \<Rightarrow> status_body \<Rightarrow> bool" where
  "reports p b = (case p of Inl e \<Rightarrow> False | Inr r \<Rightarrow> poll_ok r \<and> poll_json r = Inr b)"

definition submitted :: "image_env \<Rightarrow> runtime \<Rightarrow> image_data \<Rightarrow> string \<Rightarrow> string \<Rightarrow> bool" where
  "submitted env rt d key generationId =
     (getSetting rt ''RENDERNET_API_KEY'' = Some key \<and> key \<noteq> [] \<and> generationId \<noteq> [] \<and>
      (case submit env (post_request env d key) of
         Inl e \<Rightarrow> False
       | Inr response \<Rightarrow> submit_ok response \<and> submit_json response = Inr (Some generationId)))"

fun polls_of :: "poll_end \<Rightarrow> nat" where
  "polls_of (Completed b n) = n"
| "polls_of (Failed msg n) = n"
| "polls_of (Exhausted g n) = n"
| "polls_of (PollThrew e n) = n"

definition no_media :: "status_body option \<Rightarrow> bool" where
  "no_media g = (case g of None \<Rightarrow> True | Some b \<Rightarrow> media b = None)"

text \<open>How a run of \<open>generateImage\<close> continues from the end of the polling loop.\<close>

definition after_polling :: "image_env \<Rightarrow> poll_end \<Rightarrow> image_result" where
  "after_polling env pe =
     (case pe of
        PollThrew e n \<Rightarrow> thrown e
      | Failed msg n \<Rightarrow> failure (''RenderNet generation failed: '' @ msg)
      | Completed b n \<Rightarrow> collect env (Some b)
      | Exhausted g n \<Rightarrow> collect env g)"

text \<open>
  Example runs: a runtime with an API key, a square request, a service that accepts the
  job, and four status sequences: completed at once with an empty media list; not OK,
  then pending, then completed with one image; pending, then failed; pending for ever.
\<close>

definition keyed_runtime :: runtime where
  "keyed_runtime =
     \<lparr> getSetting = (\<lambda>k. if k = ''RENDERNET_API_KEY'' then Some ''secret'' else None),
       imageModelProvider = ''openai'' \<rparr>"

definition square :: image_data where
  "square = \<lparr> prompt = ''a cat'', width = 1024, height = 1024, count = Some 1,
               negativePrompt = None, numIterations = None, guidanceScale = None \<rparr>"

definition job_env :: "(nat \<Rightarrow> error + poll_response) \<Rightarrow> image_env" where
  "job_env f =
     \<lparr> renderNetSettingsName = None,
       submit = (\<lambda>req. Inr \<lparr> submit_ok = True, submit_status = ''200'', submit_text = Inr [],
                              submit_json = Inr (Some ''job-1'') \<rparr>),
       poll = (\<lambda>n u k. f n),
       fetchImage = (\<lambda>u. Inr \<lparr> image_ok = True, statusText = ''OK'', blob = Inr [1, 2, 3] \<rparr>),
       base64 = (\<lambda>bytes. ''AQID'') \<rparr>"

definition empty_body :: status_body where
  "empty_body = \<lparr> status = Some ''completed'', media = Some [], err = ''null'' \<rparr>"

definition done_body :: status_body where
  "done_body = \<lparr> status = Some ''completed'',
                  media = Some [\<lparr> item_type = ''image'', item_url = Some ''https://cdn.example/x.png'' \<rparr>],
                  err = ''null'' \<rparr>"

definition failed_body :: status_body where
  "failed_body = \<lparr> status = Some ''failed'', media = None, err = ''boom'' \<rparr>"

definition pending_body :: status_body where
  "pending_body = \<lparr> status = Some ''pending'', media = None, err = ''null'' \<rparr>"

definition answer :: "status_body \<Rightarrow> error + poll_response" where
  "answer b = Inr \<lparr> poll_ok = True, poll_json = Inr b \<rparr>"

definition not_ok :: "error + poll_response" where
  "not_ok = Inr \<lparr> poll_ok = False, poll_json = Inl (Error ''Bad Gateway'') \<rparr>"

definition empty_polls :: "nat \<Rightarrow> error + poll_response" where
  "empty_polls n = answer empty_body"

definition good_polls :: "nat \<Rightarrow> error + poll_response" where
  "good_polls n = (if n = 1 then not_ok else if n = 2 then answer pending_body else answer done_body)"

definition failing_polls :: "nat \<Rightarrow> error + poll_response" where
  "failing_polls n = (if n < 2 then answer pending_body else answer failed_body)"

definition stuck_polls :: "nat \<Rightarrow> error + poll_response" where
  "stuck_polls n = (if even n then not_ok else answer pending_body)"

text \<open>A job that stays pending while its status body already lists an image.\<close>

definition lingering_body :: status_body where
  "lingering_body = \<lparr> status = Some ''pending'',
                       media = Some [\<lparr> item_type = ''image'', item_url = Some ''https://cdn.example/x.png'' \<rparr>],
                       err = ''null'' \<rparr>"

definition lingering_polls :: "nat \<Rightarrow> error + poll_response" where
  "lingering_polls n = answer lingering_body"


section \<open>Scheduled publishing loop\<close>

text \<open>
  The plugin of the scheduled images calls \<open>generateImage\<close> of the core package,
  the text generation service, the file system, the network and the registered Twitter
  clients. \<open>post_world\<close> holds what these answer during one run of
  \<^verbatim>\<open>generateAndPostImage\<close>: \<open>None\<close> in a \<open>...Fails\<close> field is a call that returns, \<open>Some e\<close>
  one that throws \<open>e\<close>.
\<close>

datatype client = Client
  (client_name: "string option")
  (client_type: "string option")
  (postTweet: "(string \<Rightarrow> error option) option")
  (inner_postTweet: "(string \<Rightarrow> error option) option")

record post_world =
  textService :: "(error + string) option"
  imageOutcome :: "image_data \<Rightarrow> error + image_result"
  timestampText :: string
  imageDir :: string
  mkdirFails :: "error option"
  fetchUrl :: "string \<Rightarrow> error + image_response"
  writeFileFails :: "string \<Rightarrow> error option"
  fileExists :: "string \<Rightarrow> bool"
  services :: "client list"
  clients :: "client list"
  readFileFails :: "string \<Rightarrow> error option"
  loginFails :: "error option"
  isLoggedIn :: "error + bool"
  sendTweet :: "string \<Rightarrow> error + bool"

text \<open>\<^verbatim>\<open>s.includes(p)\<close>.\<close>

fun includes_str :: "string \<Rightarrow> string \<Rightarrow> bool" where
  "includes_str [] p = (p = [])"
| "includes_str (c # s) p = (startsWith (c # s) p \<or> includes_str s p)"

text \<open>\<^verbatim>\<open>generateImagePrompt\<close>: the trimmed answer of the service, or the fixed prompt.\<close>

definition fallbackPrompt :: string where
  "fallbackPrompt = ''A suggestive but tasteful silhouette of a woman in a doorway, backlit with golden light, creating a mysterious and alluring atmosphere. The composition has a film noir quality with dramatic shadows and a sense of anticipation.''"

definition generateImagePrompt :: "post_world \<Rightarrow> error + string" where
  "generateImagePrompt w =
     (case textService w of
        None \<Rightarrow> Inr fallbackPrompt
      | Some (Inl e) \<Rightarrow> Inl e
      | Some (Inr response) \<Rightarrow> Inr (trim response))"

text \<open>
  \<^verbatim>\<open>saveImageLocally\<close>: the path of the written file. The bytes written (the fetched
  body, or the decoded base64 data) do not matter to what follows.
\<close>

definition saveImageLocally :: "post_world \<Rightarrow> string \<Rightarrow> string \<Rightarrow> error + string" where
  "saveImageLocally w imageData filename =
     (case mkdirFails w of
        Some e \<Rightarrow> Inl e
      | None \<Rightarrow>
          let filepath = imageDir w @ ''/'' @ filename @ ''.png''
          in if startsWith imageData ''http''
             then (case fetchUrl w imageData of
                     Inl e \<Rightarrow> Inl e
                   | Inr response \<Rightarrow>
                       if \<not> image_ok response
                       then Inl (Error (''Failed to fetch image: '' @ statusText response))
                       else (case blob response of
                               Inl e \<Rightarrow> Inl e
                             | Inr bytes \<Rightarrow>
                                 (case writeFileFails w filepath of
                                    Some e \<Rightarrow> Inl e
                                  | None \<Rightarrow> Inr filepath)))
             else (case writeFileFails w filepath of
                     Some e \<Rightarrow> Inl e
                   | None \<Rightarrow> Inr filepath))"

text \<open>The caption as it is tweeted: cut to 200 characters with an ellipsis, plus the hashtag.\<close>

definition tweetText :: "string \<Rightarrow> string" where
  "tweetText caption =
     (if length caption > 200 then substring caption 0 197 @ ''...'' else caption) @ '' #ElizaAI''"

definition isTwitter :: "client \<Rightarrow> bool" where
  "isTwitter c =
     ((case client_name c of None \<Rightarrow> False | Some n \<Rightarrow> n \<noteq> [] \<and> includes_str (toLowerCase n) ''twitter'') \<or>
      (case client_type c of None \<Rightarrow> False | Some t \<Rightarrow> t \<noteq> [] \<and> includes_str (toLowerCase t) ''twitter''))"

text \<open>
  \<^verbatim>\<open>postImageToTwitter\<close>: the whole body is one try block whose catch logs and
  returns, so the function always returns; its value here is the text of the tweet that
  was sent, if one was.
\<close>

definition postImageToTwitter :: "runtime \<Rightarrow> post_world \<Rightarrow> string \<Rightarrow> string \<Rightarrow> string option" where
  "postImageToTwitter rt w caption imagePath =
     (if falsy (getSetting rt ''TWITTER_USERNAME'') \<or> getSetting rt ''ENABLE_IMAGE_POSTING'' = Some ''false''
      then None
      else if \<not> fileExists w imagePath then None
      else
        (case (case find isTwitter (services w) of
                 Some c \<Rightarrow> Some c
               | None \<Rightarrow> find isTwitter (clients w)) of
           Some twitterClient \<Rightarrow>
             (case readFileFails w imagePath of
                Some e \<Rightarrow> None
              | None \<Rightarrow>
                  (case postTweet twitterClient of
                     Some call \<Rightarrow>
                       (case call (tweetText caption) of
                          Some e \<Rightarrow> None
                        | None \<Rightarrow> Some (tweetText caption))
                   | None \<Rightarrow>
                       (case inner_postTweet twitterClient of
                          Some call \<Rightarrow>
                            (case call (tweetText caption) of
                               Some e \<Rightarrow> None
                             | None \<Rightarrow> Some (tweetText caption))
                        | None \<Rightarrow> None)))
         | None \<Rightarrow>
             if falsy (getSetting rt ''TWITTER_USERNAME'') \<or> falsy (getSetting rt ''TWITTER_PASSWORD'')
             then None
             else
               (case loginFails w of
                  Some e \<Rightarrow> None
                | None \<Rightarrow>
                    (case isLoggedIn w of
                       Inl e \<Rightarrow> None
                     | Inr False \<Rightarrow> None
                     | Inr True \<Rightarrow>
                         (case readFileFails w imagePath of
                            Some e \<Rightarrow> None
                          | None \<Rightarrow>
                              (case sendTweet w (tweetText caption) of
                                 Inl e \<Rightarrow> None
                               | Inr sent \<Rightarrow> if sent then Some (tweetText caption) else None))))))"

text \<open>
  \<^verbatim>\<open>generateAndPostImage\<close>: again one try block whose catch logs and returns. An
  exception of the prompt generation, of \<open>generateImage\<close> or of the local save, and an
  image result without data, all end the function normally, with nothing posted.
\<close>

definition generateAndPostImage :: "runtime \<Rightarrow> post_world \<Rightarrow> string option" where
  "generateAndPostImage rt w =
     (case generateImagePrompt w of
        Inl e \<Rightarrow> None
      | Inr imagePrompt \<Rightarrow>
          (case imageOutcome w \<lparr> prompt = imagePrompt, width = 1024, height = 1024, count = Some 1,
                                   negativePrompt = None, numIterations = None, guidanceScale = None \<rparr> of
             Inl e \<Rightarrow> None
           | Inr imageResult \<Rightarrow>
               (case data imageResult of
                  None \<Rightarrow> None
                | Some [] \<Rightarrow> None
                | Some (imageUrl # others) \<Rightarrow>
                    if \<not> success imageResult then None
                    else (case saveImageLocally w imageUrl (''scheduled_image_'' @ timestampText w) of
                            Inl e \<Rightarrow> None
                          | Inr localPath \<Rightarrow> postImageToTwitter rt w imagePrompt localPath))))"

text \<open>
  One run of \<^verbatim>\<open>generateImageLoop\<close>. \<open>stored\<close> is the timestamp under
  "twitter/scheduled/lastImagePost" in the cache; \<open>parseInt\<close> gives \<open>None\<close> for NaN;
  \<open>random\<close> is the value of \<^verbatim>\<open>Math.random()\<close> and \<open>now\<close> that of \<^verbatim>\<open>Date.now()\<close>. The
  outcome: the stored timestamp afterwards, the delay given to \<^verbatim>\<open>setTimeout\<close> (\<open>None\<close>
  for NaN), whether \<open>generateAndPostImage\<close> was called, the tweet it sent, and whether
  the catch block (the 15-minute retry) ran.
\<close>

record schedule_world =
  stored :: "int option"
  cacheGetFails :: "error option"
  cacheSetFails :: "error option"
  parseInt :: "string \<Rightarrow> int option"
  random :: real
  now :: int

record cycle_result =
  watermark :: "int option"
  scheduled :: "int option"
  attempted :: bool
  posted :: "string option"
  recovered :: bool

definition DEFAULT_IMAGE_INTERVAL_MIN :: string where
  "DEFAULT_IMAGE_INTERVAL_MIN = ''120''"

definition DEFAULT_IMAGE_INTERVAL_MAX :: string where
  "DEFAULT_IMAGE_INTERVAL_MAX = ''240''"

text \<open>
  The numbers of JavaScript are IEEE 754 doubles. The minute counts and the timestamps of
  the loop are integers far below \<open>2 ^ 53\<close>, on which the arithmetic of doubles is exact;
  they are integers here. The product \<^verbatim>\<open>Math.random() * (maxMinutes - minMinutes + 1)\<close>
  is not an integer: it is the exact product rounded to the nearest double, ties to the
  even significand. \<open>fl x\<close> is that rounding of a real \<open>x\<close> within the range of the finite
  doubles: 53 significant bits, \<open>exponent x\<close> being the position of the leading bit of
  \<open>x\<close>, and a spacing that stays at \<open>2 ^ - 1074\<close> below \<open>2 ^ - 1022\<close>. A real is a double
  when rounding leaves it as it is.
\<close>

definition exponent :: "real \<Rightarrow> int" where
  "exponent x =
     (if 1 \<le> \<bar>x\<bar> then bitlen \<lfloor>\<bar>x\<bar>\<rfloor> - 1 else - bitlen (\<lceil>1 / \<bar>x\<bar>\<rceil> - 1))"

definition pow2 :: "int \<Rightarrow> real" where
  "pow2 e = (if 0 \<le> e then 2 ^ nat e else 1 / 2 ^ nat (- e))"

definition roundTiesToEven :: "real \<Rightarrow> int" where
  "roundTiesToEven q =
     (let f = \<lfloor>q\<rfloor>; d = q - of_int f
      in if d < 1 / 2 then f else if 1 / 2 < d then f + 1 else if even f then f else f + 1)"

definition fl :: "real \<Rightarrow> real" where
  "fl x = (if x = 0 then 0
           else let ulp = pow2 (max (exponent x) (- 1022) - 52)
                in of_int (roundTiesToEven (x / ulp)) * ulp)"


text \<open>
  \<^verbatim>\<open>Math.floor(Math.random() * (maxMinutes - minMinutes + 1)) + minMinutes\<close>, for the
  value \<open>u\<close> of \<^verbatim>\<open>Math.random()\<close>.
\<close>

definition randomMinutes :: "real \<Rightarrow> int \<Rightarrow> int \<Rightarrow> int" where
  "randomMinutes u minMinutes maxMinutes =
     \<lfloor>fl (u * real_of_int (maxMinutes - minMinutes + 1))\<rfloor> + minMinutes"

definition lastPostTimestamp :: "schedule_world \<Rightarrow> int" where
  "lastPostTimestamp sw = (case stored sw of None \<Rightarrow> 0 | Some t \<Rightarrow> t)"

definition generateImageLoop :: "runtime \<Rightarrow> schedule_world \<Rightarrow> post_world \<Rightarrow> cycle_result" where
  "generateImageLoop rt sw w =
     (let retry = \<lparr> watermark = stored sw, scheduled = Some (15 * 60 * 1000), attempted = False,
                    posted = None, recovered = True \<rparr>
      in case cacheGetFails sw of
           Some e \<Rightarrow> retry
         | None \<Rightarrow>
             let minMinutes = parseInt sw (or_string (getSetting rt ''IMAGE_POST_INTERVAL_MIN'')
                                             DEFAULT_IMAGE_INTERVAL_MIN);
                 maxMinutes = parseInt sw (or_string (getSetting rt ''IMAGE_POST_INTERVAL_MAX'')
                                             DEFAULT_IMAGE_INTERVAL_MAX)
             in case (minMinutes, maxMinutes) of
                  (Some mn, Some mx) \<Rightarrow>
                    let delay = randomMinutes (random sw) mn mx * 60 * 1000
                    in if now sw > lastPostTimestamp sw + delay
                       then
                         let tweet = generateAndPostImage rt w
                         in (case cacheSetFails sw of
                               Some e \<Rightarrow> retry \<lparr> attempted := True, posted := tweet \<rparr>
                             | None \<Rightarrow>
                                 \<lparr> watermark = Some (now sw), scheduled = Some delay,
                                   attempted = True, posted = tweet, recovered = False \<rparr>)
                       else \<lparr> watermark = stored sw, scheduled = Some delay, attempted = False,
                              posted = None, recovered = False \<rparr>
                | _ \<Rightarrow> \<lparr> watermark = stored sw, scheduled = None, attempted = False,
                         posted = None, recovered = False \<rparr>)"

text \<open>
  Example cycles. The settings are the defaults and \<^verbatim>\<open>Math.random()\<close> gives one half,
  so the chosen interval is 180 minutes. In \<open>due_world\<close> the last post is long ago; in
  \<open>fresh_world\<close> it is one millisecond ago. \<open>good_post\<close> has an image and a Twitter
  client that posts; in \<open>failed_image_post\<close> the image generation fails; in
  \<open>failed_publish_post\<close> the client's \<^verbatim>\<open>postTweet\<close> throws.
\<close>

definition posting_runtime :: runtime where
  "posting_runtime =
     \<lparr> getSetting = (\<lambda>k. if k = ''TWITTER_USERNAME'' then Some ''eliza'' else None),
       imageModelProvider = ''openai'' \<rparr>"

definition decimal :: "string \<Rightarrow> int option" where
  "decimal s = (if s = ''120'' then Some 120 else if s = ''240'' then Some 240 else None)"

definition due_world :: schedule_world where
  "due_world = \<lparr> stored = Some 1000, cacheGetFails = None, cacheSetFails = None,
                  parseInt = decimal, random = 1 / 2, now = 20000000 \<rparr>"






definition post_with :: "(image_data \<Rightarrow> error + image_result) \<Rightarrow> (string \<Rightarrow> error option) \<Rightarrow> post_world" where
  "post_with img call =
     \<lparr> textService = Some (Inr '' a lighthouse at dusk ''),
       imageOutcome = img,
       timestampText = ''20000001'',
       imageDir = ''/app/agent/generatedImages'',
       mkdirFails = None,
       fetchUrl = (\<lambda>u. Inl (Error ''offline'')),
       writeFileFails = (\<lambda>path. None),
       fileExists = (\<lambda>path. True),
       services = [Client (Some ''Twitter'') None (Some call) None],
       clients = [],
       readFileFails = (\<lambda>path. None),
       loginFails = None,
       isLoggedIn = Inr True,
       sendTweet = (\<lambda>t. Inr True) \<rparr>"

definition one_image :: "image_data \<Rightarrow> error + image_result" where
  "one_image d = Inr \<lparr> success = True, data = Some [''data:image/png;base64,AQID''], error = None \<rparr>"

definition no_image :: "image_data \<Rightarrow> error + image_result" where
  "no_image d = Inr (failure ''RenderNet generation failed: boom'')"


definition failed_image_post :: post_world where
  "failed_image_post = post_with no_image (\<lambda>t. None)"

definition failed_publish_post :: post_world where
  "failed_publish_post = post_with one_image (\<lambda>t. Some (Error ''403 Forbidden''))"


section \<open>Tweet content extraction: extractTweetContent\<close>

text \<open>
  \<^verbatim>\<open>/\{\s*"text"\s*:\s*"([^"]*)"\s*\}/\<close> and
  \<^verbatim>\<open>/\{[^\}]*"text"\s*:\s*"([^"]*)"[^\}]*\}/\<close>. In both the capture group is the
  fourth star.
\<close>

definition jsonRegex :: "atom list" where
  "jsonRegex =
     [One (chr_is CHR ''{''), Star is_space] @ lit (dq # ''text'' @ [dq]) @
     [Star is_space, One (chr_is CHR '':''), Star is_space, One (chr_is dq), Star (chr_isnt dq), One (chr_is dq),
      Star is_space, One (chr_is CHR ''}'')]"

definition actionJsonRegex :: "atom list" where
  "actionJsonRegex =
     [One (chr_is CHR ''{''), Star (chr_isnt CHR ''}'')] @ lit (dq # ''text'' @ [dq]) @
     [Star is_space, One (chr_is CHR '':''), Star is_space, One (chr_is dq), Star (chr_isnt dq), One (chr_is dq),
      Star (chr_isnt CHR ''}''), One (chr_is CHR ''}'')]"

text \<open>
  The prefixes that strategy 3 removes, in order:
  \<^verbatim>\<open>/^Here is the (response|tweet)[^:]*:\s*/i\<close>,
  \<^verbatim>\<open>/^Here('s| is) a tweet[^:]*:\s*/i\<close>,
  \<^verbatim>\<open>/^Tweet from @?[a-zA-Z0-9_]+:\s*/i\<close>, \<^verbatim>\<open>/^\s*```json\s*/\<close> (anchored at the
  start) and \<^verbatim>\<open>/\s*```\s*$/\<close> (searched, and reaching the end).
\<close>

definition prefix1 :: "atom list" where
  "prefix1 =
     lit_ci ''Here is the '' @ [Alt [map ci ''response'', map ci ''tweet''], Star (chr_isnt CHR '':''),
                                One (chr_is CHR '':''), Star is_space]"

definition prefix2 :: "atom list" where
  "prefix2 =
     lit_ci ''Here'' @ [Alt [[ci apostrophe, ci CHR ''s''], map ci '' is'']] @ lit_ci '' a tweet'' @
     [Star (chr_isnt CHR '':''), One (chr_is CHR '':''), Star is_space]"

definition prefix3 :: "atom list" where
  "prefix3 =
     lit_ci ''Tweet from '' @ [Opt (chr_is CHR ''@''), Plus word_char,
                               One (chr_is CHR '':''), Star is_space]"

definition prefix4 :: "atom list" where
  "prefix4 = [Star is_space] @ lit ([backtick, backtick, backtick] @ ''json'') @ [Star is_space]"

definition suffix5 :: "atom list" where
  "suffix5 = [Star is_space] @ lit [backtick, backtick, backtick] @ [Star is_space, End]"

text \<open>\<^verbatim>\<open>text.replace(/^.../, '')\<close> and \<^verbatim>\<open>text.replace(/...$/, '')\<close>.\<close>

definition remove_prefix :: "atom list \<Rightarrow> string \<Rightarrow> string" where
  "remove_prefix atoms s = (case rx_match atoms s of None \<Rightarrow> s | Some (segs, r) \<Rightarrow> r)"

definition remove_first :: "atom list \<Rightarrow> string \<Rightarrow> string" where
  "remove_first atoms s = (case rx_search atoms s of None \<Rightarrow> s | Some (before, segs, r) \<Rightarrow> before @ r)"

text \<open>
  \<^verbatim>\<open>JSON.parse(jsonMatch[0]).text\<close>. The matched text is an object with the one member
  "text", so the parse succeeds exactly when the white space that \<^verbatim>\<open>\s*\<close> matched is
  JSON white space and the captured characters are the body of a JSON string; the
  value of that string (\<open>Inl\<close> for a SyntaxError) is \<open>stringValue\<close> of the environment.
\<close>

record json_env =
  stringValue :: "string \<Rightarrow> error + string"

definition json_ws :: "char \<Rightarrow> bool" where
  "json_ws c = (c \<in> set [CHR 0x20, CHR 0x09, CHR 0x0A, CHR 0x0D])"

definition parsedText :: "json_env \<Rightarrow> string list \<Rightarrow> error + string" where
  "parsedText env segs =
     (case segs of
        [w1, w2, w3, s, w4] \<Rightarrow>
          if list_all json_ws (w1 @ w2 @ w3 @ w4) then stringValue env s
          else Inl (Error ''SyntaxError'')
      | _ \<Rightarrow> Inl (Error ''SyntaxError''))"

text \<open>
  \<^verbatim>\<open>extractTweetContent\<close>: the returned string, or \<open>JNull\<close> for null.
\<close>

definition strategy3 :: "string \<Rightarrow> json" where
  "strategy3 responseText =
     (if length responseText < 280
      then
        let cleanedText =
              remove_first suffix5
                (remove_prefix prefix4
                   (remove_prefix prefix3
                      (remove_prefix prefix2
                         (remove_prefix prefix1 responseText))))
        in if cleanedText \<noteq> responseText then JStr (trim cleanedText) else JNull
      else JNull)"

definition strategy2 :: "string \<Rightarrow> json" where
  "strategy2 responseText =
     (case rx_search actionJsonRegex responseText of
        Some (before, [a, w2, w3, s, b], r) \<Rightarrow>
          if s \<noteq> [] then JStr (trim s) else strategy3 responseText
      | _ \<Rightarrow> strategy3 responseText)"

definition extractTweetContent :: "json_env \<Rightarrow> string \<Rightarrow> json" where
  "extractTweetContent env responseText =
     (case rx_search jsonRegex responseText of
        Some (before, [w1, w2, w3, s, w4], r) \<Rightarrow>
          (case parsedText env [w1, w2, w3, s, w4] of
             Inr v \<Rightarrow> if v \<noteq> [] then JStr (trim v) else strategy2 responseText
           | Inl e \<Rightarrow> if s \<noteq> [] then JStr (trim s) else strategy2 responseText)
      | _ \<Rightarrow> strategy2 responseText)"

text \<open>
  A decoder of JSON string bodies that knows the bodies without escapes and throws on a
  backslash or a control character. \<open>text_object w1 w2 w3 s w4\<close> is the text
  \<^verbatim>\<open>{ "text" : "s" }\<close> with the white space \<open>w1, ..., w4\<close> between its tokens.
\<close>

definition plain_env :: json_env where
  "plain_env =
     \<lparr> stringValue = (\<lambda>s. if list_all (\<lambda>c. 32 \<le> (of_char c :: nat) \<and> c \<noteq> backslash) s then Inr s
                           else Inl (Error ''SyntaxError'')) \<rparr>"

definition text_object :: "string \<Rightarrow> string \<Rightarrow> string \<Rightarrow> string \<Rightarrow> string \<Rightarrow> string" where
  "text_object w1 w2 w3 s w4 =
     CHR ''{'' # w1 @ dq # ''text'' @ dq # w2 @ CHR '':'' # w3 @ dq # s @ dq # w4 @ [CHR ''}'']"

text \<open>
  The example of the specification, \<^verbatim>\<open>Here you go: {"text":"hello"}  thanks!\<close>, and a
  response with an object that has no "text" member, \<^verbatim>\<open>Here you go: {"a":1}\<close>.
\<close>

definition example_response :: string where
  "example_response = ''Here you go: '' @ text_object [] [] [] ''hello'' [] @ ''  thanks!''"

definition other_response :: string where
  "other_response = ''Here you go: {'' @ dq # ''a'' @ dq # '':1}''"


section \<open>Result parser: JSON objects\<close>

text \<open>
  The grammar of JSON texts (ECMA-404), which \<^verbatim>\<open>JSON.parse\<close> accepts, as a recogniser
  of the text of one object, from its opening brace to its closing brace. It reads one
  character at a time; \<open>mode\<close> is what it expects next, and the stack lists the objects and
  arrays that are open, the innermost first. White space is allowed around the six
  structural characters; a string is a run of characters from the space on, other than
  the double quote and the backslash, and of escapes (a backslash and one of
  \<^verbatim>\<open>" \ / b f n r t\<close>, or \<^verbatim>\<open>u\<close> and four hexadecimal digits); a number is an optional
  minus, a zero or digits that do not begin with zero, an optional fraction and an
  optional exponent.
\<close>

datatype container = Obj | Arr

datatype num_state =
    AfterMinus
  | LeadingZero
  | IntDigits
  | AfterPoint
  | FracDigits
  | AfterE
  | AfterSign
  | ExpDigits

datatype mode =
    Start
  | FirstKey
  | NextKey
  | Colon
  | Value
  | FirstElement
  | After
  | Str bool
  | StrEsc bool
  | StrHex bool nat
  | Lit string
  | Num num_state
  | Done

definition closer :: "container \<Rightarrow> char" where
  "closer k = (case k of Obj \<Rightarrow> CHR ''}'' | Arr \<Rightarrow> CHR '']'')"

definition is_digit :: "char \<Rightarrow> bool" where
  "is_digit c = (c \<in> set ''0123456789'')"

definition is_hex :: "char \<Rightarrow> bool" where
  "is_hex c = (c \<in> set ''0123456789abcdefABCDEF'')"

text \<open>The first character of a value.\<close>

definition begin_value :: "container list \<Rightarrow> char \<Rightarrow> (mode \<times> container list) option" where
  "begin_value stack c =
     (if c = dq then Some (Str False, stack)
      else if c = CHR ''{'' then Some (FirstKey, Obj # stack)
      else if c = CHR ''['' then Some (FirstElement, Arr # stack)
      else if c = CHR ''t'' then Some (Lit ''rue'', stack)
      else if c = CHR ''f'' then Some (Lit ''alse'', stack)
      else if c = CHR ''n'' then Some (Lit ''ull'', stack)
      else if c = CHR ''-'' then Some (Num AfterMinus, stack)
      else if c = CHR ''0'' then Some (Num LeadingZero, stack)
      else if is_digit c then Some (Num IntDigits, stack)
      else None)"

text \<open>
  The closing character of the innermost open object or array; the text is complete when
  it closes the outermost one.
\<close>

definition close_container :: "container list \<Rightarrow> char \<Rightarrow> (mode \<times> container list) option" where
  "close_container stack c =
     (case stack of
        [] \<Rightarrow> None
      | k # rest \<Rightarrow> if c = closer k then Some (if rest = [] then Done else After, rest) else None)"

text \<open>What may follow a value: white space, a comma, or the closing character.\<close>

definition end_value :: "container list \<Rightarrow> char \<Rightarrow> (mode \<times> container list) option" where
  "end_value stack c =
     (if json_ws c then Some (After, stack)
      else if c = CHR '','' then
        (case stack of
           [] \<Rightarrow> None
         | Obj # rest \<Rightarrow> Some (NextKey, stack)
         | Arr # rest \<Rightarrow> Some (Value, stack))
      else close_container stack c)"

fun step :: "mode \<Rightarrow> container list \<Rightarrow> char \<Rightarrow> (mode \<times> container list) option" where
  "step Start stack c = (if c = CHR ''{'' then Some (FirstKey, Obj # stack) else None)"
| "step FirstKey stack c =
     (if json_ws c then Some (FirstKey, stack)
      else if c = dq then Some (Str True, stack)
      else if c = CHR ''}'' then close_container stack c
      else None)"
| "step NextKey stack c =
     (if json_ws c then Some (NextKey, stack)
      else if c = dq then Some (Str True, stack)
      else None)"
| "step Colon stack c =
     (if json_ws c then Some (Colon, stack)
      else if c = CHR '':'' then Some (Value, stack)
      else None)"
| "step Value stack c = (if json_ws c then Some (Value, stack) else begin_value stack c)"
| "step FirstElement stack c =
     (if json_ws c then Some (FirstElement, stack)
      else if c = CHR '']'' then close_container stack c
      else begin_value stack c)"
| "step After stack c = end_value stack c"
| "step (Str key) stack c =
     (if c = dq then Some (if key then Colon else After, stack)
      else if c = backslash then Some (StrEsc key, stack)
      else if 32 \<le> (of_char c :: nat) then Some (Str key, stack)
      else None)"
| "step (StrEsc key) stack c =
     (if c \<in> set (dq # backslash # ''/bfnrt'') then Some (Str key, stack)
      else if c = CHR ''u'' then Some (StrHex key 4, stack)
      else None)"
| "step (StrHex key n) stack c =
     (if is_hex c then Some (if n \<le> 1 then Str key else StrHex key (n - 1), stack) else None)"
| "step (Lit rest) stack c =
     (case rest of
        [] \<Rightarrow> None
      | x # xs \<Rightarrow> if c = x then Some (if xs = [] then After else Lit xs, stack) else None)"
| "step (Num AfterMinus) stack c =
     (if c = CHR ''0'' then Some (Num LeadingZero, stack)
      else if is_digit c then Some (Num IntDigits, stack)
      else None)"
| "step (Num LeadingZero) stack c =
     (if c = CHR ''.'' then Some (Num AfterPoint, stack)
      else if c = CHR ''e'' \<or> c = CHR ''E'' then Some (Num AfterE, stack)
      else end_value stack c)"
| "step (Num IntDigits) stack c =
     (if is_digit c then Some (Num IntDigits, stack)
      else if c = CHR ''.'' then Some (Num AfterPoint, stack)
      else if c = CHR ''e'' \<or> c = CHR ''E'' then Some (Num AfterE, stack)
      else end_value stack c)"
| "step (Num AfterPoint) stack c = (if is_digit c then Some (Num FracDigits, stack) else None)"
| "step (Num FracDigits) stack c =
     (if is_digit c then Some (Num FracDigits, stack)
      else if c = CHR ''e'' \<or> c = CHR ''E'' then Some (Num AfterE, stack)
      else end_value stack c)"
| "step (Num AfterE) stack c =
     (if c = CHR ''+'' \<or> c = CHR ''-'' then Some (Num AfterSign, stack)
      else if is_digit c then Some (Num ExpDigits, stack)
      else None)"
| "step (Num AfterSign) stack c = (if is_digit c then Some (Num ExpDigits, stack) else None)"
| "step (Num ExpDigits) stack c =
     (if is_digit c then Some (Num ExpDigits, stack) else end_value stack c)"
| "step Done stack c = None"

fun run :: "mode \<Rightarrow> container list \<Rightarrow> string \<Rightarrow> (mode \<times> container list) option" where
  "run m stack [] = Some (m, stack)"
| "run m stack (c # cs) =
     (case step m stack c of None \<Rightarrow> None | Some (m', stack') \<Rightarrow> run m' stack' cs)"


text \<open>
  Modelled from the spec: the extraction of "the first balanced JSON value from the
  text" by the result parser of section 4.4, \<^verbatim>\<open>parseJSONObjectFromText\<close> of parsing.ts,
  which \<^verbatim>\<open>generateMessageResponse\<close> calls and which is not among the sources.
  \<open>balanced stack q s\<close> reads \<open>s\<close> up to the closing brace or bracket that empties the
  stack of the expected closing characters, and returns what it has read and the rest;
  braces and brackets inside a string literal do not count, \<open>q\<close> telling whether the
  reader is outside a string literal, inside one, or behind a backslash inside one. A
  closing character that is not the expected one, and the end of the text, give no value.
\<close>

datatype scan_state = Outside | Inside | Escaped

definition keep :: "char \<Rightarrow> (string \<times> string) option \<Rightarrow> (string \<times> string) option" where
  "keep c r = (case r of None \<Rightarrow> None | Some (block, rest) \<Rightarrow> Some (c # block, rest))"

fun balanced :: "char list \<Rightarrow> scan_state \<Rightarrow> string \<Rightarrow> (string \<times> string) option" where
  "balanced stack q [] = None"
| "balanced stack Escaped (c # cs) = keep c (balanced stack Inside cs)"
| "balanced stack Inside (c # cs) =
     keep c (balanced stack (if c = backslash then Escaped else if c = dq then Outside else Inside) cs)"
| "balanced stack Outside (c # cs) =
     (if c = dq then keep c (balanced stack Inside cs)
      else if c = CHR ''{'' then keep c (balanced (CHR ''}'' # stack) Outside cs)
      else if c = CHR ''['' then keep c (balanced (CHR '']'' # stack) Outside cs)
      else if c = CHR ''}'' \<or> c = CHR '']'' then
        (case stack of
           [] \<Rightarrow> None
         | expected # rest \<Rightarrow>
             if c \<noteq> expected then None
             else if rest = [] then Some ([c], cs)
             else keep c (balanced rest Outside cs))
      else keep c (balanced stack Outside cs))"

text \<open>
  Modelled from the spec: the first balanced value of a text begins at its first opening
  brace or bracket; the prose before it, and the markers of a fenced code block, are
  skipped.
\<close>

definition opens :: "char \<Rightarrow> bool" where
  "opens c = (c = CHR ''{'' \<or> c = CHR ''['')"

definition first_balanced :: "string \<Rightarrow> (string \<times> string) option" where
  "first_balanced s = balanced [] Outside (dropWhile (\<lambda>c. \<not> opens c) s)"












section \<open>Properties of the context budgeter\<close>



text \<open>The sample tokenizer decodes what it has encoded.\<close>

lemma piece_encoding_decodes:
  "\<exists>ts. encode piece_encoding s = Inr ts \<and> decode piece_encoding ts = Inr s"
proof -
  have chars: "concat (map (\<lambda>t. if t < 6 then piece_vocabulary ! t else [char_of (t - 6)])
                 (map (\<lambda>c. 6 + of_char c) w)) = w" for w
    by (induction w) simp_all
  have a: "concat (map (\<lambda>t. if t < 6 then piece_vocabulary ! t else [char_of (t - 6)]) [0, 1, 2])
             = they_ve_said"
    by (simp add: piece_vocabulary_def they_ve_said_def)
  have b: "concat (map (\<lambda>t. if t < 6 then piece_vocabulary ! t else [char_of (t - 6)]) [3, 4, 5])
             = ve_said"
    by (simp add: piece_vocabulary_def ve_said_def)
  show ?thesis
    using chars [of s] a b by (simp add: piece_encoding_def)
qed




text \<open>
  C6, as stated, at the empty text and \<open>maxTokens = 0\<close>: the guard on the empty context
  comes first, so the call returns the empty text and no error.
\<close>

theorem trimTokens_empty_zero_counterexample:
  "trimTokens char_env plain_runtime [] 0 = Inr []"
  by (simp add: trimTokens_def)

text \<open>
  C6, amended. \<open>trimTokens\<close> returns the empty text for the empty text, whatever
  \<open>maxTokens\<close> is; for every non-empty text and every \<open>maxTokens \<le> 0\<close> it fails with the
  error "maxTokens must be positive".
\<close>

theorem trimTokens_guards:
  "trimTokens env rt [] n = Inr [] \<and>
   (T \<noteq> [] \<longrightarrow> n \<le> 0 \<longrightarrow> trimTokens env rt T n = Inl (Error ''maxTokens must be positive''))"
  by (simp add: trimTokens_def)

theorem trimTokens_guards_witness:
  "trimTokens char_env plain_runtime [] 5 = Inr [] \<and>
   trimTokens char_env plain_runtime ''abc'' 0 = Inl (Error ''maxTokens must be positive'')"
  using trimTokens_guards [of char_env plain_runtime 5 "''abc''"]
        trimTokens_guards [of char_env plain_runtime 0 "''abc''"]
  by simp


section \<open>Properties of the retry wrappers\<close>

lemma waits_append: "waits (a @ b) = waits a @ waits b"
  by (induction a rule: waits.induct) auto

lemma backoff_Suc: "backoff d (Suc N) = d # backoff (d * 2) N"
  unfolding backoff_def
  by (simp add: upt_conv_Cons map_Suc_upt[symmetric] del: upt_Suc) 

lemma retryLoop_fail_step:
  assumes "\<not> is_Parsed (attempt gen parse i)"
  shows "retryLoop label gen parse i d tr =
         retryLoop label gen parse (Suc i) (d * 2)
           (tr @ snd (gen i) @ failed_events label (attempt gen parse i) d)"
  using assms
  by (subst retryLoop.simps)
     (auto simp: attempt_def split: prod.splits sum.splits option.splits)

lemma retryLoop_success:
  assumes "attempt gen parse i = Parsed v"
  shows "retryLoop label gen parse i d tr = Some (v, tr @ snd (gen i))"
  using assms
  by (subst retryLoop.simps)
     (auto simp: attempt_def split: prod.splits sum.splits option.splits)

lemma retryLoop_run:
  assumes "\<forall>j<N. \<not> is_Parsed (attempt gen parse (i + j))"
    and "attempt gen parse (i + N) = Parsed v"
  shows "retryLoop label gen parse i d tr =
         Some (v, tr @ failed_run label gen parse i d N @ snd (gen (i + N)))"
  using assms
proof (induction N arbitrary: i d tr)
  case 0
  then show ?case by (simp add: retryLoop_success)
next
  case (Suc N)
  from Suc.prems(1) have here: "\<not> is_Parsed (attempt gen parse i)"
    by (metis add.right_neutral zero_less_Suc)
  from Suc.prems(1) have rest: "\<forall>j<N. \<not> is_Parsed (attempt gen parse (Suc i + j))"
    by auto
  from Suc.prems(2) have last: "attempt gen parse (Suc i + N) = Parsed v"
    by simp
  show ?case
    using Suc.IH [OF rest last] by (simp add: retryLoop_fail_step [OF here])
qed

lemma retryLoop_diverges:
  assumes "\<forall>j. \<not> is_Parsed (attempt gen parse j)"
  shows "retryLoop label gen parse i d tr = None"
proof (rule ccontr)
  assume "retryLoop label gen parse i d tr \<noteq> None"
  then obtain y where y: "retryLoop label gen parse i d tr = Some y" by auto
  have "retryLoop label gen parse i d tr = Some y \<Longrightarrow>
        \<not> (\<forall>j. \<not> is_Parsed (attempt gen parse j))"
  proof (induction rule: retryLoop.raw_induct[rotated 1, consumes 1])
    case (1 loop label gen parse i retryDelay tr y)
    show ?case
    proof
      assume all: "\<forall>j. \<not> is_Parsed (attempt gen parse j)"
      then have "\<not> is_Parsed (attempt gen parse i)" by simp
      with 1(2) have "\<exists>i' d' tr'. loop label gen parse i' d' tr' = Some y"
        by (auto simp: attempt_def split: prod.splits sum.splits option.splits)
      then obtain i' d' tr' where "loop label gen parse i' d' tr' = Some y" by blast
      from 1(1) [OF this] all show False by simp
    qed
  qed
  with y assms show False by simp
qed


lemma messageLoop_success:
  assumes "messageAttempt gen parse am tm i = Parsed v"
  shows "messageLoop gen parse am tm i d tr = Some (v, tr @ snd (gen i))"
  using assms
  by (subst messageLoop.simps)
     (auto simp: messageAttempt_def split: prod.splits sum.splits option.splits)

lemma messageLoop_run:
  assumes "\<forall>j<N. \<not> is_Parsed (messageAttempt gen parse am tm (i + j))"
    and "messageAttempt gen parse am tm (i + N) = Parsed v"
  shows "messageLoop gen parse am tm i d tr =
         Some (v, tr @ message_run gen (messageAttempt gen parse am tm) i d N @ snd (gen (i + N)))"
  using assms
proof (induction N arbitrary: i d tr)
  case 0
  then show ?case by (simp add: messageLoop_success)
next
  case (Suc N)
  from Suc.prems(1) have here: "\<not> is_Parsed (messageAttempt gen parse am tm i)"
    by (metis add.right_neutral zero_less_Suc)
  from Suc.prems(1) have rest: "\<forall>j<N. \<not> is_Parsed (messageAttempt gen parse am tm (Suc i + j))"
    by auto
  from Suc.prems(2) have last: "messageAttempt gen parse am tm (Suc i + N) = Parsed v"
    by simp
  note IH = Suc.IH [OF rest last]
  show ?case
  proof (cases "messageAttempt gen parse am tm i")
    case (Threw e)
    then have step: "messageLoop gen parse am tm i d tr =
        messageLoop gen parse am tm (Suc i) (d * 2) (tr @ snd (gen i) @ [Logged ''ERROR:'' e, Waited (d * 2)])"
      by (subst messageLoop.simps)
         (auto simp: messageAttempt_def split: prod.splits sum.splits option.splits)
    show ?thesis by (simp add: step IH Threw)
  next
    case (ParseThrew e)
    then have step: "messageLoop gen parse am tm i d tr =
        messageLoop gen parse am tm (Suc i) d (tr @ snd (gen i) @ [Logged ''Error during JSON parsing:'' e])"
      by (subst messageLoop.simps)
         (auto simp: messageAttempt_def split: prod.splits sum.splits option.splits)
    show ?thesis by (simp add: step IH ParseThrew)
  next
    case Null
    then have step: "messageLoop gen parse am tm i d tr =
        messageLoop gen parse am tm (Suc i) d (tr @ snd (gen i))"
      by (subst messageLoop.simps)
         (auto simp: messageAttempt_def split: prod.splits sum.splits option.splits)
    show ?thesis by (simp add: step IH Null)
  next
    case (Parsed w)
    with here show ?thesis by simp
  qed
qed

lemma messageLoop_diverges:
  assumes "\<forall>j. \<not> is_Parsed (messageAttempt gen parse am tm j)"
  shows "messageLoop gen parse am tm i d tr = None"
proof (rule ccontr)
  assume "messageLoop gen parse am tm i d tr \<noteq> None"
  then obtain y where y: "messageLoop gen parse am tm i d tr = Some y" by auto
  have "messageLoop gen parse am tm i d tr = Some y \<Longrightarrow>
        \<not> (\<forall>j. \<not> is_Parsed (messageAttempt gen parse am tm j))"
  proof (induction rule: messageLoop.raw_induct[rotated 1, consumes 1])
    case (1 loop gen parse am tm i retryLength tr y)
    show ?case
    proof
      assume all: "\<forall>j. \<not> is_Parsed (messageAttempt gen parse am tm j)"
      then have "\<not> is_Parsed (messageAttempt gen parse am tm i)" by simp
      with 1(2) have "\<exists>i' d' tr'. loop gen parse am tm i' d' tr' = Some y"
        by (auto simp: messageAttempt_def split: prod.splits sum.splits option.splits)
      then obtain i' d' tr' where "loop gen parse am tm i' d' tr' = Some y" by blast
      from 1(1) [OF this] all show False by simp
    qed
  qed
  with y assms show False by simp
qed


lemma calls_ok: "fst (calls g rt c i) = Inr r \<Longrightarrow> snd (calls g rt c i) = []"
  by (auto simp: calls_def generateText_def Let_def split: if_splits sum.splits)

lemma calls_err:
  "fst (calls g rt c i) = Inl e \<Longrightarrow> snd (calls g rt c i) = [Logged ''Error in generateText:'' e]"
  by (auto simp: calls_def generateText_def Let_def split: if_splits sum.splits)

lemma attempt_Null_ok: "attempt (calls g rt c) parse i = Null \<Longrightarrow> snd (calls g rt c i) = []"
  by (auto simp: attempt_def intro: calls_ok split: sum.splits option.splits)

lemma attempt_Parsed_ok: "attempt (calls g rt c) parse i = Parsed v \<Longrightarrow> snd (calls g rt c i) = []"
  by (auto simp: attempt_def intro: calls_ok split: sum.splits option.splits)

lemma attempt_Threw_err:
  "attempt (calls g rt c) parse i = Threw e \<Longrightarrow>
   snd (calls g rt c i) = [Logged ''Error in generateText:'' e]"
  by (auto simp: attempt_def intro: calls_err split: sum.splits option.splits)

lemma messageAttempt_Null_ok:
  "messageAttempt (calls g rt c) parse am tm i = Null \<Longrightarrow> snd (calls g rt c i) = []"
  by (auto simp: messageAttempt_def intro: calls_ok split: sum.splits option.splits)

lemma messageAttempt_Parsed_ok:
  "messageAttempt (calls g rt c) parse am tm i = Parsed v \<Longrightarrow> snd (calls g rt c i) = []"
  by (auto simp: messageAttempt_def intro: calls_ok split: sum.splits option.splits)

lemma messageAttempt_Threw_err:
  "messageAttempt (calls g rt c) parse am tm i = Threw e \<Longrightarrow>
   snd (calls g rt c i) = [Logged ''Error in generateText:'' e]"
  by (auto simp: messageAttempt_def intro: calls_err split: sum.splits option.splits)

lemma failed_run_nulls:
  assumes "\<forall>j<N. attempt (calls g rt c) parse (i + j) = Null"
  shows "failed_run label (calls g rt c) parse i d N = map Waited (backoff d N)"
  using assms
proof (induction N arbitrary: i d)
  case 0
  then show ?case by (simp add: backoff_def)
next
  case (Suc N)
  from Suc.prems have here: "attempt (calls g rt c) parse i = Null"
    by (metis add.right_neutral zero_less_Suc)
  from Suc.prems have rest: "\<forall>j<N. attempt (calls g rt c) parse (Suc i + j) = Null"
    by auto
  show ?case
    by (simp add: here attempt_Null_ok [OF here] Suc.IH [OF rest] backoff_Suc)
qed

lemma thrown_trace_Suc:
  "thrown_trace label errs d (Suc N) =
   [Logged ''Error in generateText:'' (errs 0), Logged label (errs 0), Waited d]
   @ thrown_trace label (\<lambda>j. errs (Suc j)) (d * 2) N"
  unfolding thrown_trace_def
  by (simp add: upt_conv_Cons map_Suc_upt[symmetric] comp_def mult.assoc del: upt_Suc)

lemma failed_run_throws:
  assumes "\<forall>j<N. attempt (calls g rt c) parse (i + j) = Threw (errs j)"
  shows "failed_run label (calls g rt c) parse i d N = thrown_trace label errs d N"
  using assms
proof (induction N arbitrary: i d errs)
  case 0
  then show ?case by (simp add: thrown_trace_def)
next
  case (Suc N)
  from Suc.prems have here: "attempt (calls g rt c) parse i = Threw (errs 0)"
    by (metis add.right_neutral zero_less_Suc)
  from Suc.prems have rest: "\<forall>j<N. attempt (calls g rt c) parse (Suc i + j) = Threw (errs (Suc j))"
    by auto
  show ?case
    by (simp add: here attempt_Threw_err [OF here] Suc.IH [OF rest] thrown_trace_Suc)
qed

lemma message_run_nulls:
  assumes "\<forall>j<N. messageAttempt (calls g rt c) parse am tm (i + j) = Null"
  shows "message_run (calls g rt c) (messageAttempt (calls g rt c) parse am tm) i d N = []"
  using assms
proof (induction N arbitrary: i)
  case 0
  then show ?case by simp
next
  case (Suc N)
  from Suc.prems have here: "messageAttempt (calls g rt c) parse am tm i = Null"
    by (metis add.right_neutral zero_less_Suc)
  from Suc.prems have rest: "\<forall>j<N. messageAttempt (calls g rt c) parse am tm (Suc i + j) = Null"
    by auto
  show ?case
    by (simp add: here messageAttempt_Null_ok [OF here] Suc.IH [OF rest])
qed

lemma message_run_throws:
  assumes "\<forall>j<N. messageAttempt (calls g rt c) parse am tm (i + j) = Threw (errs j)"
  shows "message_run (calls g rt c) (messageAttempt (calls g rt c) parse am tm) i d N
         = thrown_trace ''ERROR:'' errs (d * 2) N"
  using assms
proof (induction N arbitrary: i d errs)
  case 0
  then show ?case by (simp add: thrown_trace_def)
next
  case (Suc N)
  from Suc.prems have here: "messageAttempt (calls g rt c) parse am tm i = Threw (errs 0)"
    by (metis add.right_neutral zero_less_Suc)
  from Suc.prems have rest:
    "\<forall>j<N. messageAttempt (calls g rt c) parse am tm (Suc i + j) = Threw (errs (Suc j))"
    by auto
  show ?case
    by (simp add: here messageAttempt_Threw_err [OF here] Suc.IH [OF rest] thrown_trace_Suc)
qed

lemma retry_nulls:
  assumes "nulls_then (attempt (calls g rt c) parse) N v"
  shows "retryLoop label (calls g rt c) parse 0 d [] = Some (v, map Waited (backoff d N))"
proof -
  from assms have n: "\<forall>j<N. attempt (calls g rt c) parse (0 + j) = Null"
    and p: "attempt (calls g rt c) parse (0 + N) = Parsed v"
    by (auto simp: nulls_then_def list_all_iff)
  from n have np: "\<forall>j<N. \<not> is_Parsed (attempt (calls g rt c) parse (0 + j))" by simp
  show ?thesis
    using retryLoop_run [OF np p, of label d "[]"] attempt_Parsed_ok [OF p] failed_run_nulls [OF n]
    by simp
qed

lemma retry_throws:
  assumes "throws_then (attempt (calls g rt c) parse) errs N v"
  shows "retryLoop label (calls g rt c) parse 0 d [] = Some (v, thrown_trace label errs d N)"
proof -
  from assms have n: "\<forall>j<N. attempt (calls g rt c) parse (0 + j) = Threw (errs j)"
    and p: "attempt (calls g rt c) parse (0 + N) = Parsed v"
    by (auto simp: throws_then_def list_all_iff)
  from n have np: "\<forall>j<N. \<not> is_Parsed (attempt (calls g rt c) parse (0 + j))" by simp
  show ?thesis
    using retryLoop_run [OF np p, of label d "[]"] attempt_Parsed_ok [OF p] failed_run_throws [OF n]
    by simp
qed

lemma retry_never:
  assumes "never_parses (attempt gen parse)"
  shows "retryLoop label gen parse 0 d [] = None"
  using assms by (simp add: never_parses_def retryLoop_diverges)

lemma message_nulls:
  assumes "nulls_then (messageAttempt (calls g rt c) parse am tm) N v"
  shows "messageLoop (calls g rt c) parse am tm 0 d [] = Some (v, [])"
proof -
  from assms have n: "\<forall>j<N. messageAttempt (calls g rt c) parse am tm (0 + j) = Null"
    and p: "messageAttempt (calls g rt c) parse am tm (0 + N) = Parsed v"
    by (auto simp: nulls_then_def list_all_iff)
  from n have np: "\<forall>j<N. \<not> is_Parsed (messageAttempt (calls g rt c) parse am tm (0 + j))" by simp
  show ?thesis
    using messageLoop_run [OF np p, of d "[]"] messageAttempt_Parsed_ok [OF p] message_run_nulls [OF n]
    by simp
qed

lemma message_throws:
  assumes "throws_then (messageAttempt (calls g rt c) parse am tm) errs N v"
  shows "messageLoop (calls g rt c) parse am tm 0 d [] = Some (v, thrown_trace ''ERROR:'' errs (d * 2) N)"
proof -
  from assms have n: "\<forall>j<N. messageAttempt (calls g rt c) parse am tm (0 + j) = Threw (errs j)"
    and p: "messageAttempt (calls g rt c) parse am tm (0 + N) = Parsed v"
    by (auto simp: throws_then_def list_all_iff)
  from n have np: "\<forall>j<N. \<not> is_Parsed (messageAttempt (calls g rt c) parse am tm (0 + j))" by simp
  show ?thesis
    using messageLoop_run [OF np p, of d "[]"] messageAttempt_Parsed_ok [OF p] message_run_throws [OF n]
    by simp
qed

lemma message_never:
  assumes "never_parses (messageAttempt gen parse am tm)"
  shows "messageLoop gen parse am tm 0 d [] = None"
  using assms by (simp add: never_parses_def messageLoop_diverges)


lemma waited_backoff: "map Waited (backoff d N) = map (\<lambda>j. Waited (d * 2 ^ j)) [0..<N]"
  by (simp add: backoff_def)

text \<open>
  C3, as stated, at \<^verbatim>\<open>generateMessageResponse\<close> with two null results before the value:
  the function returns the value, but after no wait at all, where the claim has the
  waits 1000 and 2000.
\<close>

theorem generateMessageResponse_nulls_counterexample:
  "nulls_then (messageAttempt (calls slow_gen plain_runtime ''hi'') parse_yes_json actionMatch textMatch)
     2 (JBool True) \<and>
   generateMessageResponse slow_gen plain_runtime parse_yes_json ''hi''
     = Some (Inr (JBool True), []) \<and>
   waits [] \<noteq> [1000 * 2 ^ 0, 1000 * 2 ^ 1]"
proof -
  have n: "nulls_then (messageAttempt (calls slow_gen plain_runtime ''hi'') parse_yes_json actionMatch textMatch)
     2 (JBool True)"
    by code_simp
  have t: "trimTokens (tok slow_gen) plain_runtime ''hi'' (settingsMaxInputTokens slow_gen) = Inr ''hi''"
    by code_simp
  show ?thesis
    using n message_nulls [OF n, of 1000] by (simp add: generateMessageResponse_def t)
qed

text \<open>
  C3, amended. For \<^verbatim>\<open>generateShouldRespond\<close>, \<^verbatim>\<open>generateTrueOrFalse\<close>,
  \<^verbatim>\<open>generateTweetActions\<close>, and (on a non-empty context) \<^verbatim>\<open>generateTextArray\<close>,
  \<^verbatim>\<open>generateObjectDeprecated\<close> and \<^verbatim>\<open>generateObjectArray\<close>: when the parse first
  succeeds on attempt \<open>N + 1\<close> after \<open>N\<close> null results, the entry point returns that value
  after exactly \<open>N\<close> waits of \<open>1000 * 2 ^ 0, ..., 1000 * 2 ^ (N - 1)\<close> ms.
  \<^verbatim>\<open>generateMessageResponse\<close> returns the first value too, but retries at once after a
  null result, with no wait. No entry point has a maximum attempt count: the above
  holds for every \<open>N\<close>, and a run in which no attempt yields a value never returns.
\<close>

theorem retry_wrappers_backoff:
  "(nulls_then (attempt (calls g rt c) (\<lambda>r. pS (trim r))) N vS \<longrightarrow>
      generateShouldRespond g rt pS c = Some (vS, map (\<lambda>j. Waited (1000 * 2 ^ j)) [0..<N])) \<and>
   (nulls_then (attempt (calls g rt c) (\<lambda>r. pB (trim r))) N vB \<longrightarrow>
      generateTrueOrFalse g rt pB c = Some (vB, map (\<lambda>j. Waited (1000 * 2 ^ j)) [0..<N])) \<and>
   (nulls_then (attempt (calls g rt c) (\<lambda>r. pT (trim r))) N vT \<longrightarrow>
      generateTweetActions g rt pT c = Some (vT, map (\<lambda>j. Waited (1000 * 2 ^ j)) [0..<N])) \<and>
   (c \<noteq> [] \<longrightarrow> nulls_then (attempt (calls g rt c) pA) N vA \<longrightarrow>
      generateTextArray g rt pA c = Some (vA, map (\<lambda>j. Waited (1000 * 2 ^ j)) [0..<N])) \<and>
   (c \<noteq> [] \<longrightarrow> nulls_then (attempt (calls g rt c) pO) N vO \<longrightarrow>
      generateObjectDeprecated g rt pO c = Some (Some vO, map (\<lambda>j. Waited (1000 * 2 ^ j)) [0..<N])) \<and>
   (c \<noteq> [] \<longrightarrow> nulls_then (attempt (calls g rt c) pR) N vR \<longrightarrow>
      generateObjectArray g rt pR c = Some (vR, map (\<lambda>j. Waited (1000 * 2 ^ j)) [0..<N])) \<and>
   (trimTokens (tok g) rt c (settingsMaxInputTokens g) = Inr c' \<longrightarrow>
    nulls_then (messageAttempt (calls g rt c') pJ actionMatch textMatch) N vJ \<longrightarrow>
      generateMessageResponse g rt pJ c = Some (Inr vJ, [])) \<and>
   (never_parses (attempt (calls g rt c) (\<lambda>r. pS (trim r))) \<longrightarrow>
      generateShouldRespond g rt pS c = None) \<and>
   (never_parses (attempt (calls g rt c) (\<lambda>r. pB (trim r))) \<longrightarrow>
      generateTrueOrFalse g rt pB c = None) \<and>
   (never_parses (attempt (calls g rt c) (\<lambda>r. pT (trim r))) \<longrightarrow>
      generateTweetActions g rt pT c = None) \<and>
   (c \<noteq> [] \<longrightarrow> never_parses (attempt (calls g rt c) pA) \<longrightarrow>
      generateTextArray g rt pA c = None) \<and>
   (c \<noteq> [] \<longrightarrow> never_parses (attempt (calls g rt c) pO) \<longrightarrow>
      generateObjectDeprecated g rt pO c = None) \<and>
   (c \<noteq> [] \<longrightarrow> never_parses (attempt (calls g rt c) pR) \<longrightarrow>
      generateObjectArray g rt pR c = None) \<and>
   (trimTokens (tok g) rt c (settingsMaxInputTokens g) = Inr c' \<longrightarrow>
    never_parses (messageAttempt (calls g rt c') pJ actionMatch textMatch) \<longrightarrow>
      generateMessageResponse g rt pJ c = None)"
  unfolding generateShouldRespond_def generateTrueOrFalse_def generateTweetActions_def
    generateTextArray_def generateObjectDeprecated_def generateObjectArray_def
    generateMessageResponse_def waited_backoff [symmetric]
  by (simp add: retry_nulls retry_never message_nulls message_never)


theorem retry_wrappers_backoff_witness:
  "generateShouldRespond slow_gen plain_runtime parse_yes ''hi'' = Some (True, [Waited 1000, Waited 2000]) \<and>
   generateTrueOrFalse slow_gen plain_runtime parse_yes ''hi'' = Some (True, [Waited 1000, Waited 2000]) \<and>
   generateTweetActions slow_gen plain_runtime parse_yes ''hi'' = Some (True, [Waited 1000, Waited 2000]) \<and>
   generateTextArray slow_gen plain_runtime parse_yes_array ''hi'' = Some ([True], [Waited 1000, Waited 2000]) \<and>
   generateObjectDeprecated slow_gen plain_runtime parse_yes ''hi'' = Some (Some True, [Waited 1000, Waited 2000]) \<and>
   generateObjectArray slow_gen plain_runtime parse_yes_array ''hi'' = Some ([True], [Waited 1000, Waited 2000]) \<and>
   generateMessageResponse slow_gen plain_runtime parse_yes_json ''hi''
     = Some (Inr (JBool True), []) \<and>
   generateShouldRespond dead_gen plain_runtime parse_yes ''hi'' = None \<and>
   generateTrueOrFalse dead_gen plain_runtime parse_yes ''hi'' = None \<and>
   generateTweetActions dead_gen plain_runtime parse_yes ''hi'' = None \<and>
   generateTextArray dead_gen plain_runtime parse_yes_array ''hi'' = None \<and>
   generateObjectDeprecated dead_gen plain_runtime parse_yes ''hi'' = None \<and>
   generateObjectArray dead_gen plain_runtime parse_yes_array ''hi'' = None \<and>
   generateMessageResponse dead_gen plain_runtime parse_yes_json ''hi'' = None"
proof -
  have c: "''hi'' \<noteq> []" by simp
  have n1: "nulls_then (attempt (calls slow_gen plain_runtime ''hi'') (\<lambda>r. parse_yes (trim r))) 2 True"
    by code_simp
  have n2: "nulls_then (attempt (calls slow_gen plain_runtime ''hi'') parse_yes_array) 2 [True]"
    by code_simp
  have n3: "nulls_then (attempt (calls slow_gen plain_runtime ''hi'') parse_yes) 2 True"
    by code_simp
  have n4: "nulls_then (messageAttempt (calls slow_gen plain_runtime ''hi'') parse_yes_json actionMatch textMatch)
     2 (JBool True)"
    by code_simp
  have t: "trimTokens (tok slow_gen) plain_runtime ''hi'' (settingsMaxInputTokens slow_gen) = Inr ''hi''"
    by code_simp
  have t': "trimTokens (tok dead_gen) plain_runtime ''hi'' (settingsMaxInputTokens dead_gen) = Inr ''hi''"
    by code_simp
  have dead: "\<And>j. fst (calls dead_gen plain_runtime ''hi'' j) = Inl (Error ''timeout'')"
    by (simp add: calls_def generateText_def dead_gen_def or_default_def trimTokens_def
        plain_runtime_def truncateTiktoken_def char_env_def char_encoding_def)
  have d1: "\<And>p. never_parses (attempt (calls dead_gen plain_runtime ''hi'') p)"
    by (simp add: never_parses_def attempt_def dead)
  have d2: "never_parses (messageAttempt (calls dead_gen plain_runtime ''hi'') parse_yes_json actionMatch textMatch)"
    by (simp add: never_parses_def messageAttempt_def dead)
  have up: "[0..<2] = [0, Suc 0]" by code_simp
  show ?thesis
    using retry_wrappers_backoff [of slow_gen plain_runtime "''hi''" parse_yes 2 True
            parse_yes True parse_yes True parse_yes_array "[True]" parse_yes True
            parse_yes_array "[True]" "''hi''" parse_yes_json "JBool True"]
          retry_wrappers_backoff [of dead_gen plain_runtime "''hi''" parse_yes 2 True
            parse_yes True parse_yes True parse_yes_array "[True]" parse_yes True
            parse_yes_array "[True]" "''hi''" parse_yes_json "JBool True"]
          n1 n2 n3 n4 t t' d2
    by (simp add: up d1)
qed


text \<open>
  C4. The raw \<open>generateText\<close> logs the exception of the transport and throws it again to
  its caller. Each of the seven retry wrappers catches the exception of \<open>generateText\<close>,
  logs it under its own label, waits and tries again: when the first \<open>N\<close> calls throw and
  the next one parses, the wrapper returns the parsed value, and its run holds the \<open>N\<close>
  logged errors and \<open>N\<close> waits; no exception of \<open>generateText\<close> reaches the caller.
\<close>

theorem transport_error_policies:
  "(c \<noteq> [] \<longrightarrow>
    trimTokens (tok g) rt c (or_default (configMaxInputTokens g) (settingsMaxInputTokens g)) = Inr ctx \<longrightarrow>
    dispatch g i ctx = Inl e \<longrightarrow>
      generateText g rt i c = (Inl e, [Logged ''Error in generateText:'' e])) \<and>
   (throws_then (attempt (calls g rt c) (\<lambda>r. pS (trim r))) errs N vS \<longrightarrow>
      generateShouldRespond g rt pS c
        = Some (vS, thrown_trace ''Error in generateShouldRespond:'' errs 1000 N)) \<and>
   (throws_then (attempt (calls g rt c) (\<lambda>r. pB (trim r))) errs N vB \<longrightarrow>
      generateTrueOrFalse g rt pB c
        = Some (vB, thrown_trace ''Error in generateTrueOrFalse:'' errs 1000 N)) \<and>
   (throws_then (attempt (calls g rt c) (\<lambda>r. pT (trim r))) errs N vT \<longrightarrow>
      generateTweetActions g rt pT c
        = Some (vT, thrown_trace ''Error in generateTweetActions:'' errs 1000 N)) \<and>
   (c \<noteq> [] \<longrightarrow> throws_then (attempt (calls g rt c) pA) errs N vA \<longrightarrow>
      generateTextArray g rt pA c
        = Some (vA, thrown_trace ''Error in generateTextArray:'' errs 1000 N)) \<and>
   (c \<noteq> [] \<longrightarrow> throws_then (attempt (calls g rt c) pO) errs N vO \<longrightarrow>
      generateObjectDeprecated g rt pO c
        = Some (Some vO, thrown_trace ''Error in generateObject:'' errs 1000 N)) \<and>
   (c \<noteq> [] \<longrightarrow> throws_then (attempt (calls g rt c) pR) errs N vR \<longrightarrow>
      generateObjectArray g rt pR c
        = Some (vR, thrown_trace ''Error in generateTextArray:'' errs 1000 N)) \<and>
   (trimTokens (tok g) rt c (settingsMaxInputTokens g) = Inr c' \<longrightarrow>
    throws_then (messageAttempt (calls g rt c') pJ actionMatch textMatch) errs N vJ \<longrightarrow>
      generateMessageResponse g rt pJ c
        = Some (Inr vJ, thrown_trace ''ERROR:'' errs 2000 N))"
  unfolding generateShouldRespond_def generateTrueOrFalse_def generateTweetActions_def
    generateTextArray_def generateObjectDeprecated_def generateObjectArray_def
    generateMessageResponse_def
  using message_throws [of g rt c' pJ actionMatch textMatch errs N vJ 1000]
  by (simp add: retry_throws generateText_def)

theorem transport_error_policies_witness:
  "generateText flaky_gen plain_runtime 0 ''hi''
     = (Inl (Error ''timeout''), [Logged ''Error in generateText:'' (Error ''timeout'')]) \<and>
   generateShouldRespond flaky_gen plain_runtime parse_yes ''hi''
     = Some (True, [Logged ''Error in generateText:'' (Error ''timeout''),
                    Logged ''Error in generateShouldRespond:'' (Error ''timeout''), Waited 1000,
                    Logged ''Error in generateText:'' (Error ''timeout''),
                    Logged ''Error in generateShouldRespond:'' (Error ''timeout''), Waited 2000]) \<and>
   generateTrueOrFalse flaky_gen plain_runtime parse_yes ''hi''
     = Some (True, thrown_trace ''Error in generateTrueOrFalse:'' (\<lambda>j. Error ''timeout'') 1000 2) \<and>
   generateTweetActions flaky_gen plain_runtime parse_yes ''hi''
     = Some (True, thrown_trace ''Error in generateTweetActions:'' (\<lambda>j. Error ''timeout'') 1000 2) \<and>
   generateTextArray flaky_gen plain_runtime parse_yes_array ''hi''
     = Some ([True], thrown_trace ''Error in generateTextArray:'' (\<lambda>j. Error ''timeout'') 1000 2) \<and>
   generateObjectDeprecated flaky_gen plain_runtime parse_yes ''hi''
     = Some (Some True, thrown_trace ''Error in generateObject:'' (\<lambda>j. Error ''timeout'') 1000 2) \<and>
   generateObjectArray flaky_gen plain_runtime parse_yes_array ''hi''
     = Some ([True], thrown_trace ''Error in generateTextArray:'' (\<lambda>j. Error ''timeout'') 1000 2) \<and>
   generateMessageResponse flaky_gen plain_runtime parse_yes_json ''hi''
     = Some (Inr (JBool True),
             [Logged ''Error in generateText:'' (Error ''timeout''),
              Logged ''ERROR:'' (Error ''timeout''), Waited 2000,
              Logged ''Error in generateText:'' (Error ''timeout''),
              Logged ''ERROR:'' (Error ''timeout''), Waited 4000])"
proof -
  have c: "''hi'' \<noteq> []" by simp
  have t0: "trimTokens (tok flaky_gen) plain_runtime ''hi''
             (or_default (configMaxInputTokens flaky_gen) (settingsMaxInputTokens flaky_gen)) = Inr ''hi''"
    by code_simp
  have d0: "dispatch flaky_gen 0 ''hi'' = Inl (Error ''timeout'')"
    by (simp add: flaky_gen_def)
  have n1: "throws_then (attempt (calls flaky_gen plain_runtime ''hi'') (\<lambda>r. parse_yes (trim r)))
              (\<lambda>j. Error ''timeout'') 2 True"
    by code_simp
  have n2: "throws_then (attempt (calls flaky_gen plain_runtime ''hi'') parse_yes_array)
              (\<lambda>j. Error ''timeout'') 2 [True]"
    by code_simp
  have n3: "throws_then (attempt (calls flaky_gen plain_runtime ''hi'') parse_yes)
              (\<lambda>j. Error ''timeout'') 2 True"
    by code_simp
  have n4: "throws_then (messageAttempt (calls flaky_gen plain_runtime ''hi'') parse_yes_json actionMatch textMatch)
              (\<lambda>j. Error ''timeout'') 2 (JBool True)"
    by code_simp
  have t: "trimTokens (tok flaky_gen) plain_runtime ''hi'' (settingsMaxInputTokens flaky_gen) = Inr ''hi''"
    by code_simp
  have up: "[0..<2] = [0, Suc 0]" by code_simp
  have tr: "\<And>l d. thrown_trace l (\<lambda>j. Error ''timeout'') d 2 =
      [Logged ''Error in generateText:'' (Error ''timeout''), Logged l (Error ''timeout''), Waited d,
       Logged ''Error in generateText:'' (Error ''timeout''), Logged l (Error ''timeout''), Waited (d * 2)]"
    by (simp add: thrown_trace_def up)
  show ?thesis
    using transport_error_policies [of "''hi''" flaky_gen plain_runtime "''hi''" 0 "Error ''timeout''"
            parse_yes "\<lambda>j. Error ''timeout''" 2 True
            parse_yes True parse_yes True parse_yes_array "[True]" parse_yes True
            parse_yes_array "[True]" "''hi''" parse_yes_json "JBool True"]
          c t0 d0 n1 n2 n3 n4 t
    by (simp add: tr)
qed


section \<open>Properties of the chunking\<close>

text \<open>
  Once \<open>end\<close> has reached \<open>content.length\<close>, the next \<open>start\<close> is \<open>content.length - bleed\<close>,
  which is below \<open>content.length\<close> again when \<open>bleed\<close> is positive: the loop condition never
  becomes false.
\<close>

lemma splitText_loop_diverges:
  assumes "0 < bleed" and "start < int (length content)"
  shows "splitText_loop content chunkSize bleed start chunks = None"
proof (rule ccontr)
  assume "splitText_loop content chunkSize bleed start chunks \<noteq> None"
  then obtain y where y: "splitText_loop content chunkSize bleed start chunks = Some y" by auto
  have "splitText_loop content chunkSize bleed start chunks = Some y \<Longrightarrow>
        \<not> (0 < bleed \<and> start < int (length content))"
  proof (induction rule: splitText_loop.raw_induct[rotated 1, consumes 1])
    case (1 loop content chunkSize bleed start chunks y)
    show ?case
    proof
      assume inv: "0 < bleed \<and> start < int (length content)"
      let ?next = "min (start + chunkSize) (int (length content)) - bleed"
      from inv 1(2) have run: "loop content chunkSize bleed ?next
          (chunks @ [substring content start (min (start + chunkSize) (int (length content)))]) = Some y"
        by simp
      from inv have "0 < bleed \<and> ?next < int (length content)" by auto
      with 1(1) [OF run] show False by simp
    qed
  qed
  with y assms show False by simp
qed

lemma splitText_diverges:
  "0 < bleed \<Longrightarrow> content \<noteq> [] \<Longrightarrow> splitText content chunkSize bleed = None"
  by (simp add: splitText_def splitText_loop_diverges)

text \<open>
  C9 says that \<open>splitText\<close>, and \<open>splitChunks\<close> with its default bleed of 100, return a
  finite list of chunks for every non-empty content. On the content "a" with the
  defaults (chunk size 1500, bleed 100) the loop never returns; by \<open>splitText_diverges\<close>
  the same holds for every non-empty content and every positive bleed.
\<close>

theorem splitText_single_char_never_returns:
  "splitText ''a'' 1500 100 = None \<and> splitChunks ''a'' None None = None"
  by (simp add: splitChunks_def splitText_diverges)

text \<open>Without overlap the loop does return.\<close>

lemma splitText_zero_bleed: "splitText ''abc'' 2 0 = Some [''ab'', ''c'']"
  unfolding splitText_def
  apply (subst splitText_loop.simps, simp add: substring_def)
  apply (subst splitText_loop.simps, simp add: substring_def)
  apply (subst splitText_loop.simps, simp add: substring_def)
  done


section \<open>Properties of the image job poller\<close>

declare pollLoop.simps [simp del]

lemma pollLoop_bound: "attempts \<le> maxAttempts \<Longrightarrow> polls_of (pollLoop polls attempts g) \<le> maxAttempts"
proof (induction polls attempts g rule: pollLoop.induct)
  case (1 polls attempts g)
  show ?case
    using 1 by (subst pollLoop.simps) (auto split: sum.splits)
qed

lemma pollLoop_pending_step:
  "attempts < maxAttempts \<Longrightarrow> pending (polls (Suc attempts)) \<Longrightarrow>
   \<exists>g'. pollLoop polls attempts g = pollLoop polls (Suc attempts) g'"
  by (subst pollLoop.simps) (auto simp: pending_def split: sum.splits)

lemma pollLoop_completed_here:
  "attempts < maxAttempts \<Longrightarrow> reports (polls (Suc attempts)) b \<Longrightarrow> status b = Some ''completed'' \<Longrightarrow>
   pollLoop polls attempts g = Completed b (Suc attempts)"
  by (subst pollLoop.simps) (auto simp: reports_def split: sum.splits)

lemma pollLoop_failed_here:
  "attempts < maxAttempts \<Longrightarrow> reports (polls (Suc attempts)) b \<Longrightarrow> status b = Some ''failed'' \<Longrightarrow>
   pollLoop polls attempts g = Failed (err b) (Suc attempts)"
  by (subst pollLoop.simps) (auto simp: reports_def split: sum.splits)

lemma pollLoop_completed:
  assumes "a + k < maxAttempts"
    and "\<forall>j<k. pending (polls (Suc (a + j)))"
    and "reports (polls (Suc (a + k))) b" and "status b = Some ''completed''"
  shows "pollLoop polls a g = Completed b (Suc (a + k))"
  using assms
proof (induction k arbitrary: a g)
  case 0
  then show ?case by (simp add: pollLoop_completed_here)
next
  case (Suc k)
  from Suc.prems have here: "pending (polls (Suc a))" and lt: "a < maxAttempts"
    by (auto dest: spec [of _ 0])
  from pollLoop_pending_step [where polls = polls and g = g, OF lt here] obtain g' where
    step: "pollLoop polls a g = pollLoop polls (Suc a) g'" by blast
  from Suc.prems have rest: "\<forall>j<k. pending (polls (Suc (Suc a + j)))" by auto
  from Suc.prems have "Suc a + k < maxAttempts" "reports (polls (Suc (Suc a + k))) b" by auto
  from Suc.IH [OF this(1) rest this(2) Suc.prems(4)] step show ?case by simp
qed

lemma pollLoop_failed:
  assumes "a + k < maxAttempts"
    and "\<forall>j<k. pending (polls (Suc (a + j)))"
    and "reports (polls (Suc (a + k))) b" and "status b = Some ''failed''"
  shows "pollLoop polls a g = Failed (err b) (Suc (a + k))"
  using assms
proof (induction k arbitrary: a g)
  case 0
  then show ?case by (simp add: pollLoop_failed_here)
next
  case (Suc k)
  from Suc.prems have here: "pending (polls (Suc a))" and lt: "a < maxAttempts"
    by (auto dest: spec [of _ 0])
  from pollLoop_pending_step [where polls = polls and g = g, OF lt here] obtain g' where
    step: "pollLoop polls a g = pollLoop polls (Suc a) g'" by blast
  from Suc.prems have rest: "\<forall>j<k. pending (polls (Suc (Suc a + j)))" by auto
  from Suc.prems have "Suc a + k < maxAttempts" "reports (polls (Suc (Suc a + k))) b" by auto
  from Suc.IH [OF this(1) rest this(2) Suc.prems(4)] step show ?case by simp
qed

lemma pollLoop_exhausted:
  assumes "a \<le> maxAttempts" and "\<forall>j. a < j \<and> j \<le> maxAttempts \<longrightarrow> pending (polls j)"
  shows "\<exists>g'. pollLoop polls a g = Exhausted g' maxAttempts \<and>
              ((\<forall>j. a < j \<and> j \<le> maxAttempts \<longrightarrow> bare (polls j)) \<longrightarrow> no_media g \<longrightarrow> no_media g')"
  using assms
proof (induction polls a g rule: pollLoop.induct)
  case (1 polls attempts g)
  show ?case
  proof (cases "attempts < maxAttempts")
    case False
    with 1(3) have "attempts = maxAttempts" by simp
    then show ?thesis by (subst pollLoop.simps) simp
  next
    case True
    with 1(4) have pend: "pending (polls (Suc attempts))" by simp
    from 1(4) have rest: "\<forall>j. Suc attempts < j \<and> j \<le> maxAttempts \<longrightarrow> pending (polls j)" by simp
    from True have le: "Suc attempts \<le> maxAttempts" by simp
    from pend obtain r where r: "polls (Suc attempts) = Inr r"
      by (auto simp: pending_def split: sum.splits)
    show ?thesis
    proof (cases "poll_ok r")
      case False
      from 1(1) [OF True r _ le rest] False obtain g' where
        g': "pollLoop polls (Suc attempts) g = Exhausted g' maxAttempts"
        "(\<forall>j. Suc attempts < j \<and> j \<le> maxAttempts \<longrightarrow> bare (polls j)) \<longrightarrow> no_media g \<longrightarrow> no_media g'"
        by auto
      have "pollLoop polls attempts g = pollLoop polls (Suc attempts) g"
        using True r False by (subst pollLoop.simps) simp
      with g' show ?thesis by auto
    next
      case ok: True
      with pend r obtain b where b: "poll_json r = Inr b"
        and nc: "status b \<noteq> Some ''completed''" and nf: "status b \<noteq> Some ''failed''"
        by (auto simp: pending_def split: sum.splits)
      from 1(2) [OF True r _ b nc nf le rest] ok obtain g' where
        g': "pollLoop polls (Suc attempts) (Some b) = Exhausted g' maxAttempts"
        "(\<forall>j. Suc attempts < j \<and> j \<le> maxAttempts \<longrightarrow> bare (polls j)) \<longrightarrow> no_media (Some b) \<longrightarrow> no_media g'"
        by auto
      have step: "pollLoop polls attempts g = pollLoop polls (Suc attempts) (Some b)"
        using True r ok b nc nf by (subst pollLoop.simps) simp
      have "(\<forall>j. attempts < j \<and> j \<le> maxAttempts \<longrightarrow> bare (polls j)) \<Longrightarrow> no_media (Some b)"
      proof -
        assume "\<forall>j. attempts < j \<and> j \<le> maxAttempts \<longrightarrow> bare (polls j)"
        with True have "bare (polls (Suc attempts))" by simp
        with r ok b show ?thesis by (simp add: bare_def no_media_def)
      qed
      with g' step show ?thesis by auto
    qed
  qed
qed


lemma generateImage_submitted:
  assumes "submitted env rt d key gid"
  shows "result (generateImage env rt d) = after_polling env (pollLoop (status_polls env key gid) 0 None)"
    and "polls_made (generateImage env rt d) = polls_of (pollLoop (status_polls env key gid) 0 None)"
    and "request (generateImage env rt d) = Some (post_request env d key)"
proof -
  from assms obtain response where
    k: "getSetting rt ''RENDERNET_API_KEY'' = Some key" "key \<noteq> []" "gid \<noteq> []"
    and r: "submit env (post_request env d key) = Inr response" "submit_ok response"
       "submit_json response = Inr (Some gid)"
    by (auto simp: submitted_def split: sum.splits)
  have g: "generateImage env rt d =
      (case pollLoop (status_polls env key gid) 0 None of
         PollThrew e n \<Rightarrow> \<lparr> result = thrown e, request = Some (post_request env d key),
                              polls_made = n, logged_provider = imageModelProvider rt \<rparr>
       | Failed msg n \<Rightarrow> \<lparr> result = failure (''RenderNet generation failed: '' @ msg),
                              request = Some (post_request env d key),
                              polls_made = n, logged_provider = imageModelProvider rt \<rparr>
       | Completed b n \<Rightarrow> \<lparr> result = collect env (Some b), request = Some (post_request env d key),
                              polls_made = n, logged_provider = imageModelProvider rt \<rparr>
       | Exhausted g n \<Rightarrow> \<lparr> result = collect env g, request = Some (post_request env d key),
                              polls_made = n, logged_provider = imageModelProvider rt \<rparr>)"
    by (simp add: generateImage_def k r Let_def)
  show "result (generateImage env rt d) = after_polling env (pollLoop (status_polls env key gid) 0 None)"
    by (cases "pollLoop (status_polls env key gid) 0 None") (simp_all add: g after_polling_def)
  show "polls_made (generateImage env rt d) = polls_of (pollLoop (status_polls env key gid) 0 None)"
    by (cases "pollLoop (status_polls env key gid) 0 None") (simp_all add: g)
  show "request (generateImage env rt d) = Some (post_request env d key)"
    by (cases "pollLoop (status_polls env key gid) 0 None") (simp_all add: g)
qed

lemma fetchAll_length: "fetchAll env us = Inr assets \<Longrightarrow> length assets = length us"
  by (induction us arbitrary: assets) (auto split: sum.splits if_splits)

lemma collect_success:
  "success (collect env g) \<longleftrightarrow>
     (\<exists>b items assets. g = Some b \<and> media b = Some items \<and> image_urls items \<noteq> [] \<and>
        fetchAll env (image_urls items) = Inr assets)"
  by (auto simp: collect_def failure_def thrown_def dest: fetchAll_length
      split: option.splits sum.splits)

lemma collect_data:
  "success (collect env g) \<Longrightarrow> \<exists>assets. data (collect env g) = Some assets \<and> assets \<noteq> []"
  by (auto simp: collect_def failure_def thrown_def split: option.splits sum.splits if_splits)

lemma collect_no_media:
  "no_media g \<Longrightarrow> collect env g = failure ''Failed to get valid generation result from RenderNet''"
  by (auto simp: collect_def no_media_def split: option.splits)

lemma upto_pending:
  assumes "list_all P [1..<Suc k]"
  shows "\<forall>j<k. P (Suc (0 + j))"
proof (intro allI impI)
  fix j assume "j < k"
  then have "Suc j \<in> set [1..<Suc k]" by (simp del: upt_Suc)
  with assms show "P (Suc (0 + j))" by (simp add: list_all_iff del: upt_Suc)
qed

text \<open>
  C7, amended. After a successful submission \<open>generateImage\<close> makes at most 30 status
  polls. When the polls before poll \<open>k + 1 \<le> 30\<close> keep the loop going and poll \<open>k + 1\<close>
  reports "completed", the run makes exactly \<open>k + 1\<close> polls and returns \<open>success = True\<close>
  with a non-empty asset list exactly when the completed status has a media array with
  at least one image item with a URL and every asset fetch succeeds (\<open>success = False\<close>
  otherwise). When poll \<open>k + 1\<close> reports "failed", the run returns
  \<open>success = False\<close> with the error at once, after exactly \<open>k + 1\<close> polls. When none of
  the 30 polls reports "completed" or "failed", every poll, a response that is not OK
  included, counts as one attempt and the run makes exactly 30 polls; it then returns
  \<open>success = False\<close> when no status body read carried a media array.
\<close>

theorem image_poller:
  assumes sub: "submitted env rt d key gid"
  shows "polls_made (generateImage env rt d) \<le> 30 \<and>
    (k < 30 \<longrightarrow> list_all (\<lambda>j. pending (status_polls env key gid j)) [1..<Suc k] \<longrightarrow>
     reports (status_polls env key gid (Suc k)) b \<longrightarrow> status b = Some ''completed'' \<longrightarrow>
       polls_made (generateImage env rt d) = Suc k \<and>
       result (generateImage env rt d) = collect env (Some b) \<and>
       (success (collect env (Some b)) \<longleftrightarrow>
          (\<exists>items assets. media b = Some items \<and> image_urls items \<noteq> [] \<and>
             fetchAll env (image_urls items) = Inr assets)) \<and>
       (success (collect env (Some b)) \<longrightarrow>
          (\<exists>assets. data (collect env (Some b)) = Some assets \<and> assets \<noteq> []))) \<and>
    (k < 30 \<longrightarrow> list_all (\<lambda>j. pending (status_polls env key gid j)) [1..<Suc k] \<longrightarrow>
     reports (status_polls env key gid (Suc k)) b \<longrightarrow> status b = Some ''failed'' \<longrightarrow>
       polls_made (generateImage env rt d) = Suc k \<and>
       result (generateImage env rt d) = failure (''RenderNet generation failed: '' @ err b)) \<and>
    (list_all (\<lambda>j. pending (status_polls env key gid j)) [1..<31] \<longrightarrow>
       polls_made (generateImage env rt d) = 30) \<and>
    (list_all (\<lambda>j. bare (status_polls env key gid j)) [1..<31] \<longrightarrow>
       polls_made (generateImage env rt d) = 30 \<and>
       result (generateImage env rt d)
         = failure ''Failed to get valid generation result from RenderNet'')"
proof (intro conjI impI)
  let ?P = "status_polls env key gid"
  note gi = generateImage_submitted [OF sub]
  show "polls_made (generateImage env rt d) \<le> 30"
    using pollLoop_bound [of 0 ?P None] by (simp add: gi maxAttempts_def)
  {
    assume k: "k < 30" and pend: "list_all (\<lambda>j. pending (?P j)) [1..<Suc k]"
      and rep: "reports (?P (Suc k)) b"
    from k have k': "0 + k < maxAttempts" by (simp add: maxAttempts_def)
    from rep have rep': "reports (?P (Suc (0 + k))) b" by simp
    {
      assume st: "status b = Some ''completed''"
      from pollLoop_completed [OF k' upto_pending [OF pend] rep' st, of None]
      have pl: "pollLoop ?P 0 None = Completed b (Suc k)" by simp
      show "polls_made (generateImage env rt d) = Suc k" by (simp add: gi pl)
      show "result (generateImage env rt d) = collect env (Some b)"
        by (simp add: gi pl after_polling_def)
      show "success (collect env (Some b)) \<longleftrightarrow>
          (\<exists>items assets. media b = Some items \<and> image_urls items \<noteq> [] \<and>
             fetchAll env (image_urls items) = Inr assets)"
        by (simp add: collect_success)
      {
        assume "success (collect env (Some b))"
        then show "\<exists>assets. data (collect env (Some b)) = Some assets \<and> assets \<noteq> []"
          by (rule collect_data)
      }
    }
    {
      assume st: "status b = Some ''failed''"
      from pollLoop_failed [OF k' upto_pending [OF pend] rep' st, of None]
      have pl: "pollLoop ?P 0 None = Failed (err b) (Suc k)" by simp
      show "polls_made (generateImage env rt d) = Suc k" by (simp add: gi pl)
      show "result (generateImage env rt d) = failure (''RenderNet generation failed: '' @ err b)"
        by (simp add: gi pl after_polling_def)
    }
  }
  {
    assume pend: "list_all (\<lambda>j. pending (?P j)) [1..<31]"
    then have all: "\<forall>j. 0 < j \<and> j \<le> maxAttempts \<longrightarrow> pending (?P j)"
      by (auto simp: list_all_iff maxAttempts_def)
    from pollLoop_exhausted [OF _ all, of None] obtain g' where
      "pollLoop ?P 0 None = Exhausted g' maxAttempts" by auto
    then show "polls_made (generateImage env rt d) = 30" by (simp add: gi maxAttempts_def)
  }
  {
    assume br: "list_all (\<lambda>j. bare (?P j)) [1..<31]"
    then have ball: "\<forall>j. 0 < j \<and> j \<le> maxAttempts \<longrightarrow> bare (?P j)"
      by (auto simp: list_all_iff maxAttempts_def)
    have bp: "\<And>p. bare p \<Longrightarrow> pending p"
      by (auto simp: bare_def pending_def split: sum.splits)
    from ball bp have all: "\<forall>j. 0 < j \<and> j \<le> maxAttempts \<longrightarrow> pending (?P j)" by blast
    from pollLoop_exhausted [OF _ all, of None] ball obtain g' where
      g': "pollLoop ?P 0 None = Exhausted g' maxAttempts" "no_media g'"
      by (auto simp: no_media_def)
    from g' show "polls_made (generateImage env rt d) = 30" by (simp add: gi maxAttempts_def)
    from g' show "result (generateImage env rt d)
         = failure ''Failed to get valid generation result from RenderNet''"
      by (simp add: gi after_polling_def collect_no_media)
  }
qed


text \<open>
  C7, as stated, on a job whose first status is "completed" with an empty media list:
  the sequence reaches COMPLETED, and \<open>generateImage\<close> returns \<open>success = False\<close>
  ("No images generated by RenderNet").
\<close>

theorem completed_without_images_counterexample:
  "submitted (job_env empty_polls) keyed_runtime square ''secret'' ''job-1'' \<and>
   reports (status_polls (job_env empty_polls) ''secret'' ''job-1'' 1) empty_body \<and>
   status empty_body = Some ''completed'' \<and>
   result (generateImage (job_env empty_polls) keyed_runtime square)
     = failure ''No images generated by RenderNet'' \<and>
   \<not> success (result (generateImage (job_env empty_polls) keyed_runtime square))"
  by code_simp

theorem image_poller_witness:
  "polls_made (generateImage (job_env good_polls) keyed_runtime square) = 3 \<and>
   result (generateImage (job_env good_polls) keyed_runtime square)
     = \<lparr> success = True, data = Some [''data:image/png;base64,AQID''], error = None \<rparr> \<and>
   polls_made (generateImage (job_env failing_polls) keyed_runtime square) = 2 \<and>
   result (generateImage (job_env failing_polls) keyed_runtime square)
     = failure ''RenderNet generation failed: boom'' \<and>
   polls_made (generateImage (job_env stuck_polls) keyed_runtime square) = 30 \<and>
   result (generateImage (job_env stuck_polls) keyed_runtime square)
     = failure ''Failed to get valid generation result from RenderNet''"
proof -
  have s1: "submitted (job_env good_polls) keyed_runtime square ''secret'' ''job-1''" by code_simp
  have s2: "submitted (job_env failing_polls) keyed_runtime square ''secret'' ''job-1''" by code_simp
  have s3: "submitted (job_env stuck_polls) keyed_runtime square ''secret'' ''job-1''" by code_simp
  have k1: "(2::nat) < 30" and k2: "(1::nat) < 30" by simp_all
  have p1: "list_all (\<lambda>j. pending (status_polls (job_env good_polls) ''secret'' ''job-1'' j)) [1..<Suc 2]"
    by code_simp
  have r1: "reports (status_polls (job_env good_polls) ''secret'' ''job-1'' (Suc 2)) done_body"
    by code_simp
  have c1: "status done_body = Some ''completed''" by (simp add: done_body_def)
  have col: "collect (job_env good_polls) (Some done_body)
      = \<lparr> success = True, data = Some [''data:image/png;base64,AQID''], error = None \<rparr>"
    by code_simp
  have p2: "list_all (\<lambda>j. pending (status_polls (job_env failing_polls) ''secret'' ''job-1'' j)) [1..<Suc 1]"
    by code_simp
  have r2: "reports (status_polls (job_env failing_polls) ''secret'' ''job-1'' (Suc 1)) failed_body"
    by code_simp
  have c2: "status failed_body = Some ''failed''" "err failed_body = ''boom''"
    by (simp_all add: failed_body_def)
  have p3: "list_all (\<lambda>j. bare (status_polls (job_env stuck_polls) ''secret'' ''job-1'' j)) [1..<31]"
    by code_simp
  from image_poller [OF s1, of 2 done_body] k1 p1 r1 c1 col
       image_poller [OF s2, of 1 failed_body] k2 p2 r2 c2
       image_poller [OF s3, of 0 pending_body] p3
  show ?thesis by simp
qed

text \<open>
  The loop does not record why it ended: after 30 polls that all report "pending", the
  last body read is collected as a completed one would be.
\<close>

lemma exhausted_budget_collects_media:
  "polls_made (generateImage (job_env lingering_polls) keyed_runtime square) = 30 \<and>
   success (result (generateImage (job_env lingering_polls) keyed_runtime square))"
  by code_simp

text \<open>
  The configured image provider is read once, for the log lines.
\<close>

lemma generateImage_provider:
  "generateImage env (rt\<lparr>imageModelProvider := p\<rparr>) d = (generateImage env rt d)\<lparr>logged_provider := p\<rparr>"
  by (simp add: generateImage_def Let_def split: option.splits sum.splits poll_end.splits)

text \<open>
  C10. Two runtimes that differ only in \<open>imageModelProvider\<close> make \<open>generateImage\<close> send
  the same RenderNet request (endpoint, headers, model settings and body), make the
  same number of polls and return the same result; only the logged provider differs.
  In particular the result is \<open>success = False\<close>, with no request sent, whenever
  \<^verbatim>\<open>RENDERNET_API_KEY\<close> is unset or empty, whichever provider is configured.
\<close>

theorem generateImage_ignores_provider:
  "request (generateImage env (rt\<lparr>imageModelProvider := p\<rparr>) d) = request (generateImage env rt d) \<and>
   result (generateImage env (rt\<lparr>imageModelProvider := p\<rparr>) d) = result (generateImage env rt d) \<and>
   polls_made (generateImage env (rt\<lparr>imageModelProvider := p\<rparr>) d)
     = polls_made (generateImage env rt d) \<and>
   logged_provider (generateImage env (rt\<lparr>imageModelProvider := p\<rparr>) d) = p \<and>
   (falsy (getSetting rt ''RENDERNET_API_KEY'') \<longrightarrow>
      result (generateImage env (rt\<lparr>imageModelProvider := p\<rparr>) d) = missing_key \<and>
      \<not> success (result (generateImage env (rt\<lparr>imageModelProvider := p\<rparr>) d)) \<and>
      request (generateImage env (rt\<lparr>imageModelProvider := p\<rparr>) d) = None)"
proof -
  have "falsy (getSetting rt ''RENDERNET_API_KEY'') \<Longrightarrow>
        generateImage env rt d
          = \<lparr> result = missing_key, request = None, polls_made = 0,
              logged_provider = imageModelProvider rt \<rparr>"
    by (auto simp: generateImage_def falsy_def Let_def split: option.splits)
  then show ?thesis
    by (auto simp: generateImage_provider missing_key_def failure_def)
qed

theorem generateImage_ignores_provider_witness:
  "request (generateImage (job_env good_polls) (keyed_runtime\<lparr>imageModelProvider := ''falai''\<rparr>) square)
     = Some (post_request (job_env good_polls) square ''secret'') \<and>
   result (generateImage (job_env good_polls) (keyed_runtime\<lparr>imageModelProvider := ''falai''\<rparr>) square)
     = \<lparr> success = True, data = Some [''data:image/png;base64,AQID''], error = None \<rparr> \<and>
   falsy (getSetting plain_runtime ''RENDERNET_API_KEY'') \<and>
   result (generateImage (job_env good_polls) (plain_runtime\<lparr>imageModelProvider := ''falai''\<rparr>) square)
     = missing_key \<and>
   \<not> success (result (generateImage (job_env good_polls) (plain_runtime\<lparr>imageModelProvider := ''falai''\<rparr>) square))"
proof -
  have f: "falsy (getSetting plain_runtime ''RENDERNET_API_KEY'')" by code_simp
  have r: "request (generateImage (job_env good_polls) keyed_runtime square)
             = Some (post_request (job_env good_polls) square ''secret'')"
    by code_simp
  have s: "result (generateImage (job_env good_polls) keyed_runtime square)
             = \<lparr> success = True, data = Some [''data:image/png;base64,AQID''], error = None \<rparr>"
    by code_simp
  note A = generateImage_ignores_provider [where env = "job_env good_polls" and rt = keyed_runtime
         and p = "''falai''" and d = square]
  note B = generateImage_ignores_provider [where env = "job_env good_polls" and rt = plain_runtime
         and p = "''falai''" and d = square]
  from A [THEN conjunct1] r have 1:
    "request (generateImage (job_env good_polls) (keyed_runtime\<lparr>imageModelProvider := ''falai''\<rparr>) square)
     = Some (post_request (job_env good_polls) square ''secret'')"
    by simp
  from A [THEN conjunct2, THEN conjunct1] s have 2:
    "result (generateImage (job_env good_polls) (keyed_runtime\<lparr>imageModelProvider := ''falai''\<rparr>) square)
     = \<lparr> success = True, data = Some [''data:image/png;base64,AQID''], error = None \<rparr>"
    by simp
  from B [THEN conjunct2, THEN conjunct2, THEN conjunct2, THEN conjunct2, rule_format, OF f]
  have 3:
    "result (generateImage (job_env good_polls) (plain_runtime\<lparr>imageModelProvider := ''falai''\<rparr>) square)
     = missing_key"
    "\<not> success (result (generateImage (job_env good_polls) (plain_runtime\<lparr>imageModelProvider := ''falai''\<rparr>) square))"
    by blast+
  from 1 2 f 3 show ?thesis by blast
qed


section \<open>Properties of the scheduled publishing loop\<close>





lemma exponent_upper:
  assumes "0 < x"
  shows "x < pow2 (exponent x + 1)"
proof (cases "1 \<le> x")
  case True
  let ?a = "\<lfloor>x\<rfloor>"
  from True have a: "0 < ?a" by simp
  from bitlen_bounds [OF a] have "?a + 1 \<le> 2 ^ nat (bitlen ?a)" by simp
  then have "of_int (?a + 1) \<le> (2::real) ^ nat (bitlen ?a)"
    by (metis of_int_le_iff of_int_numeral of_int_power)
  moreover have "x < of_int (?a + 1)" by linarith
  ultimately have lt: "x < 2 ^ nat (bitlen ?a)" by linarith
  have "0 < bitlen ?a"
  proof (rule ccontr)
    assume "\<not> 0 < bitlen ?a"
    then have "nat (bitlen ?a) = 0" by simp
    with bitlen_bounds [OF a] have "?a < 1" by simp
    with a show False by simp
  qed
  with True assms lt show ?thesis by (simp add: exponent_def pow2_def)
next
  case False
  let ?c = "\<lceil>1 / x\<rceil>"
  from False assms have y: "1 < 1 / x" by simp
  then have c: "0 < ?c - 1" by simp
  let ?k = "bitlen (?c - 1)"
  have k: "0 < ?k"
  proof (rule ccontr)
    assume "\<not> 0 < ?k"
    then have "nat ?k = 0" by simp
    with bitlen_bounds [OF c] have "?c - 1 < 1" by simp
    with c show False by simp
  qed
  from bitlen_bounds [OF c] have "2 ^ nat (?k - 1) \<le> ?c - 1" by simp
  then have "(2::real) ^ nat (?k - 1) \<le> of_int (?c - 1)"
    by (metis of_int_le_iff of_int_numeral of_int_power)
  moreover have "of_int (?c - 1) < 1 / x" by linarith
  ultimately have "2 ^ nat (?k - 1) < 1 / x" by linarith
  with assms have lt: "x < 1 / 2 ^ nat (?k - 1)" by (simp add: field_simps)
  show ?thesis
  proof (cases "?k = 1")
    case True
    with False assms show ?thesis by (simp add: exponent_def pow2_def)
  next
    case other: False
    with k have "\<not> 0 \<le> 1 - ?k" "nat (- (1 - ?k)) = nat (?k - 1)" by simp_all
    with False assms lt show ?thesis by (simp add: exponent_def pow2_def)
  qed
qed







text \<open>
  The rounding of the product matters: for this value of \<^verbatim>\<open>Math.random()\<close> the exact
  product with 121 is just below 33, the double product is 33, and the interval is 153
  minutes.
\<close>

lemma randomMinutes_rounded:
  "randomMinutes (1228254443828317 / 2 ^ 52) 120 240 = 153 \<and>
   \<lfloor>1228254443828317 / 2 ^ 52 * (121 :: real)\<rfloor> + 120 = (152 :: int)"
  by code_simp

text \<open>With the default settings and \<^verbatim>\<open>Math.random() = 0.5\<close> the interval is 180 minutes.\<close>

lemma half_minutes: "randomMinutes (1 / 2) 120 240 = 180"
  by code_simp







text \<open>
  C1 says that the watermark keeps its previous value when the image generation or the
  publish call fails. In \<open>due_world\<close> the stored timestamp is 1000 and the cycle is due.
  With an image generation that returns \<open>success = False\<close>, and with a Twitter client
  whose \<^verbatim>\<open>postTweet\<close> throws, \<open>generateAndPostImage\<close> posts nothing and returns
  normally, and the cycle stores its \<open>now\<close>, 20000000, as the new watermark.
\<close>

theorem watermark_set_after_failed_publish:
  "generateAndPostImage posting_runtime failed_image_post = None \<and>
   watermark (generateImageLoop posting_runtime due_world failed_image_post) = Some 20000000 \<and>
   generateAndPostImage posting_runtime failed_publish_post = None \<and>
   watermark (generateImageLoop posting_runtime due_world failed_publish_post) = Some 20000000 \<and>
   stored due_world = Some 1000"
proof -
  have a: "generateAndPostImage posting_runtime failed_image_post = None" by code_simp
  have b: "generateAndPostImage posting_runtime failed_publish_post = None" by code_simp
  have c: "\<And>w. watermark (generateImageLoop posting_runtime due_world w) = Some 20000000"
    by (simp add: generateImageLoop_def Let_def due_world_def posting_runtime_def
        or_string_def decimal_def DEFAULT_IMAGE_INTERVAL_MIN_def DEFAULT_IMAGE_INTERVAL_MAX_def
        half_minutes lastPostTimestamp_def)
  have d: "stored due_world = Some 1000" by (simp add: due_world_def)
  from a b c [of failed_image_post] c [of failed_publish_post] d show ?thesis by blast
qed


section \<open>Properties of the tweet content extraction\<close>

text \<open>
  A star followed by something that its class excludes takes exactly the run of its class.
\<close>

lemma rx_match_Star:
  assumes w: "list_all p w"
    and stop: "case s' of [] \<Rightarrow> True | c # cs \<Rightarrow> \<not> p c"
    and rest: "rx_match atoms s' = Some (segs, r)"
  shows "rx_match (Star p # atoms) (w @ s') = Some (w # segs, r)"
proof -
  from w have all: "\<forall>x\<in>set w. p x" by (simp add: list_all_iff)
  from stop have "takeWhile p s' = []" by (cases s') simp_all
  with all have tw: "takeWhile p (w @ s') = w" by (simp add: takeWhile_append2)
  have up: "rev [0..<Suc (length w)] = length w # rev [0..<length w]" by simp
  show ?thesis by (simp add: tw up rest del: upt_Suc)
qed

lemma rx_match_One: "p c \<Longrightarrow> rx_match (One p # atoms) (c # cs) = rx_match atoms cs"
  by simp

lemma rx_match_lit: "rx_match (lit w @ atoms) (w @ s) = rx_match atoms s"
  by (induction w) (simp_all add: lit_def chr_is_def)

lemma not_space: "\<not> is_space dq" "\<not> is_space CHR '':''" "\<not> is_space CHR ''}''"
  by (simp_all add: is_space_def dq_def)

lemma jsonRegex_matches:
  assumes ws: "list_all is_space w1" "list_all is_space w2" "list_all is_space w3" "list_all is_space w4"
    and s: "dq \<notin> set s"
  shows "rx_match jsonRegex (text_object w1 w2 w3 s w4 @ post) = Some ([w1, w2, w3, s, w4], post)"
proof -
  have e: "rx_match [One (chr_is CHR ''}'')] (CHR ''}'' # post) = Some ([], post)"
    by (simp add: chr_is_def)
  have d: "rx_match [Star is_space, One (chr_is CHR ''}'')] (w4 @ CHR ''}'' # post) = Some ([w4], post)"
    by (rule rx_match_Star [OF ws(4) _ e]) (simp add: not_space)
  have c0: "rx_match [One (chr_is dq), Star is_space, One (chr_is CHR ''}'')] (dq # w4 @ CHR ''}'' # post)
      = Some ([w4], post)"
    using d by (simp add: chr_is_def)
  from s have sq: "list_all (chr_isnt dq) s" by (auto simp: list_all_iff chr_isnt_def)
  have c: "rx_match [Star (chr_isnt dq), One (chr_is dq), Star is_space, One (chr_is CHR ''}'')]
             (s @ dq # w4 @ CHR ''}'' # post) = Some ([s, w4], post)"
    by (rule rx_match_Star [OF sq _ c0]) (simp add: chr_isnt_def)
  have b0: "rx_match [One (chr_is dq), Star (chr_isnt dq), One (chr_is dq), Star is_space, One (chr_is CHR ''}'')]
             (dq # s @ dq # w4 @ CHR ''}'' # post) = Some ([s, w4], post)"
    using c by (simp add: chr_is_def)
  have b: "rx_match [Star is_space, One (chr_is dq), Star (chr_isnt dq), One (chr_is dq), Star is_space,
                     One (chr_is CHR ''}'')]
             (w3 @ dq # s @ dq # w4 @ CHR ''}'' # post) = Some ([w3, s, w4], post)"
    by (rule rx_match_Star [OF ws(3) _ b0]) (simp add: not_space)
  have a0: "rx_match [One (chr_is CHR '':''), Star is_space, One (chr_is dq), Star (chr_isnt dq), One (chr_is dq),
                      Star is_space, One (chr_is CHR ''}'')]
             (CHR '':'' # w3 @ dq # s @ dq # w4 @ CHR ''}'' # post) = Some ([w3, s, w4], post)"
    using b by (simp add: chr_is_def)
  have a: "rx_match [Star is_space, One (chr_is CHR '':''), Star is_space, One (chr_is dq), Star (chr_isnt dq),
                     One (chr_is dq), Star is_space, One (chr_is CHR ''}'')]
             (w2 @ CHR '':'' # w3 @ dq # s @ dq # w4 @ CHR ''}'' # post) = Some ([w2, w3, s, w4], post)"
    by (rule rx_match_Star [OF ws(2) _ a0]) (simp add: not_space)
  have t: "rx_match (lit (dq # ''text'' @ [dq]) @
                     [Star is_space, One (chr_is CHR '':''), Star is_space, One (chr_is dq), Star (chr_isnt dq),
                      One (chr_is dq), Star is_space, One (chr_is CHR ''}'')])
             ((dq # ''text'' @ [dq]) @ w2 @ CHR '':'' # w3 @ dq # s @ dq # w4 @ CHR ''}'' # post)
           = Some ([w2, w3, s, w4], post)"
    using a by (simp only: rx_match_lit)
  have z: "rx_match (Star is_space # lit (dq # ''text'' @ [dq]) @
                     [Star is_space, One (chr_is CHR '':''), Star is_space, One (chr_is dq), Star (chr_isnt dq),
                      One (chr_is dq), Star is_space, One (chr_is CHR ''}'')])
             (w1 @ (dq # ''text'' @ [dq]) @ w2 @ CHR '':'' # w3 @ dq # s @ dq # w4 @ CHR ''}'' # post)
           = Some ([w1, w2, w3, s, w4], post)"
    by (rule rx_match_Star [OF ws(1) _ t]) (simp add: not_space)
  show ?thesis
    using z by (simp add: jsonRegex_def text_object_def chr_is_def)
qed

lemma rx_search_skips:
  assumes "CHR ''{'' \<notin> set pre" and "rx_match jsonRegex x = Some (segs, r)"
  shows "rx_search jsonRegex (pre @ x) = Some (pre, segs, r)"
  using assms
proof (induction pre)
  case Nil
  then show ?case by (cases x) simp_all
next
  case (Cons c pre)
  from Cons.prems(1) have c: "\<not> chr_is CHR ''{'' c" and pre: "CHR ''{'' \<notin> set pre"
    by (auto simp: chr_is_def)
  have first: "jsonRegex = One (chr_is CHR ''{'') # tl jsonRegex"
    by (simp add: jsonRegex_def)
  have none: "rx_match jsonRegex (c # pre @ x) = None"
    by (subst first) (simp add: c)
  from Cons.IH [OF pre Cons.prems(2)] none show ?case by simp
qed

lemma json_ws_space: "list_all json_ws w \<Longrightarrow> list_all is_space w"
  by (auto simp: list_all_iff json_ws_def is_space_def)

lemma extractTweetContent_found:
  assumes pre: "CHR ''{'' \<notin> set pre"
    and ws: "list_all json_ws (w1 @ w2 @ w3 @ w4)"
    and s: "dq \<notin> set s"
    and v: "stringValue env s = Inr v" "v \<noteq> []"
  shows "extractTweetContent env (pre @ text_object w1 w2 w3 s w4 @ post) = JStr (trim v)"
proof -
  from ws have "list_all is_space w1" "list_all is_space w2" "list_all is_space w3" "list_all is_space w4"
    by (simp_all add: json_ws_space)
  from jsonRegex_matches [OF this s]
  have m: "rx_match jsonRegex (text_object w1 w2 w3 s w4 @ post) = Some ([w1, w2, w3, s, w4], post)" .
  have found: "rx_search jsonRegex (pre @ text_object w1 w2 w3 s w4 @ post)
      = Some (pre, [w1, w2, w3, s, w4], post)"
    by (rule rx_search_skips [OF pre m])
  from ws v(1) have parsed: "parsedText env [w1, w2, w3, s, w4] = Inr v"
    by (simp add: parsedText_def)
  show ?thesis
    using v(2) by (simp add: extractTweetContent_def found parsed)
qed

text \<open>The three strategies on the two example responses.\<close>

lemma other_response_strategy1: "rx_search jsonRegex other_response = None"
  by code_simp

lemma other_response_strategy2: "rx_search actionJsonRegex other_response = None"
  by code_simp

lemma other_response_strategy3: "strategy3 other_response = JNull"
  by code_simp

lemma example_response_strategy1:
  "rx_search jsonRegex example_response
     = Some (''Here you go: '', [[], [], [], ''hello'', []], ''  thanks!'')"
  by code_simp

lemma example_response_parse: "parsedText plain_env [[], [], [], ''hello'', []] = Inr ''hello''"
  by code_simp

lemma trim_hello: "trim ''hello'' = ''hello''"
  by code_simp

text \<open>
  On the example of the specification \<^verbatim>\<open>extractTweetContent\<close> returns the text of the
  tweet, the string "hello"; on \<^verbatim>\<open>Here you go: {"a":1}\<close>, which has no "text" member, it
  returns null.
\<close>

lemma extractTweetContent_examples:
  "extractTweetContent plain_env example_response = JStr ''hello'' \<and>
   extractTweetContent plain_env other_response = JNull"
  by (simp add: extractTweetContent_def strategy2_def other_response_strategy1
      other_response_strategy2 other_response_strategy3 example_response_strategy1
      example_response_parse trim_hello)


section \<open>Properties of the result parser\<close>


lemma balanced_inert:
  "c \<noteq> dq \<Longrightarrow> c \<noteq> backslash \<Longrightarrow> balanced stack Inside (c # cs) = keep c (balanced stack Inside cs)"
  by simp

















text \<open>
  What the reader returns is a part of the text, and the value that the parser extracts
  begins at the first opening brace or bracket of the text: what precedes it has none.
\<close>

lemma balanced_split:
  "balanced stack q s = Some (block, rest) \<Longrightarrow> s = block @ rest"
proof (induction s arbitrary: stack q block rest)
  case Nil
  then show ?case by simp
next
  case (Cons c cs)
  show ?case
  proof (cases q)
    case Escaped
    with Cons.prems obtain b where "balanced stack Inside cs = Some (b, rest)" "block = c # b"
      by (auto simp: keep_def split: option.splits)
    with Cons.IH show ?thesis by simp
  next
    case Inside
    with Cons.prems obtain q' b where "balanced stack q' cs = Some (b, rest)" "block = c # b"
      by (auto simp: keep_def split: option.splits)
    with Cons.IH show ?thesis by simp
  next
    case Outside
    with Cons.prems have "(block = [c] \<and> rest = cs) \<or>
        (\<exists>stack' q' b. balanced stack' q' cs = Some (b, rest) \<and> block = c # b)"
      by (auto simp: keep_def split: option.splits if_splits list.splits)
    with Cons.IH show ?thesis by auto
  qed
qed

lemma first_balanced_begins:
  assumes "first_balanced s = Some (block, rest)"
  shows "s = takeWhile (\<lambda>c. \<not> opens c) s @ block @ rest"
proof -
  from assms have "dropWhile (\<lambda>c. \<not> opens c) s = block @ rest"
    unfolding first_balanced_def by (rule balanced_split)
  then show ?thesis by (metis takeWhile_dropWhile_id)
qed




end
